theory Spec2Isabelle
  imports Complex_Main "HOL-Library.Word"
begin

section \<open>Conventions of the embedding\<close>

text \<open>
  The numerical engine of the visualiser (\<^verbatim>\<open>Neuron\<close>, \<^verbatim>\<open>Layer\<close>, \<^verbatim>\<open>NeuralNetwork\<close>,
  the activation and loss libraries) is embedded function by function.

  \<^item> The template parameter \<^verbatim>\<open>T\<close> (\<^verbatim>\<open>float\<close> or \<^verbatim>\<open>double\<close>) is idealised as \<open>real\<close>:
    rounding, infinities and NaN are not modelled, and no theorem below relies on the
    value of a division by zero.
  \<^item> \<^verbatim>\<open>std::size_t\<close> counters are natural numbers; where a counter is advanced by a
    caller-supplied amount the wrap-around modulo \<open>2 ^ 64\<close> is written out.
  \<^item> Enumerations are \<^verbatim>\<open>enum class\<close> over \<^verbatim>\<open>int\<close>; they are read from persisted documents
    by \<^verbatim>\<open>static_cast\<close> from any \<^verbatim>\<open>int\<close>, and the factories have \<^verbatim>\<open>default:\<close> branches, so
    a tag is a 32-bit word with named constants for the enumerators.
  \<^item> A failed \<^verbatim>\<open>assert\<close> (debug build), a read outside a vector
    (undefined behaviour), an exception of the JSON library and the exception of a
    vector that cannot grow any more are values of type \<open>fault\<close>; an operation that can
    fail returns \<open>fault + 'a\<close>.
  \<^item> The macro \<^verbatim>\<open>NNV_ASSERT\<close> of \<^verbatim>\<open>Common.hpp\<close> is \<^verbatim>\<open>assert\<close> when \<^verbatim>\<open>NDEBUG\<close> is not
    defined and \<^verbatim>\<open>((void)0)\<close> otherwise, so every operation that uses it takes the
    build as a parameter.
  \<^item> The random generators (\<^verbatim>\<open>std::random_device\<close>, \<^verbatim>\<open>std::mt19937\<close>) are streams of
    draws handed in by the caller and handed back advanced.
\<close>

type_synonym scalar = real

datatype build = Debug | Release

datatype fault = AssertionAbort | UndefinedBehaviour | TypeError | AllocationFailure

definition NNV_ASSERT :: "build \<Rightarrow> bool \<Rightarrow> fault + unit" where
  "NNV_ASSERT b c = (if b = Debug \<and> \<not> c then Inl AssertionAbort else Inr ())"

definition bindF :: "fault + 'a \<Rightarrow> ('a \<Rightarrow> fault + 'b) \<Rightarrow> fault + 'b" where
  "bindF m f = (case m of Inl e \<Rightarrow> Inl e | Inr x \<Rightarrow> f x)"

fun mapF :: "('a \<Rightarrow> fault + 'b) \<Rightarrow> 'a list \<Rightarrow> fault + 'b list" where
  "mapF f [] = Inr []"
| "mapF f (x # xs) = bindF (f x) (\<lambda>y. bindF (mapF f xs) (\<lambda>ys. Inr (y # ys)))"

definition size_t_add :: "nat \<Rightarrow> nat \<Rightarrow> nat" where
  "size_t_add a b = (a + b) mod 2 ^ 64"

text \<open>The range constructor \<^verbatim>\<open>std::vector(v.begin() + lo, v.begin() + hi)\<close>.\<close>

definition vector_range :: "'a list \<Rightarrow> nat \<Rightarrow> nat \<Rightarrow> fault + 'a list" where
  "vector_range v lo hi =
     (if lo \<le> hi \<and> hi \<le> length v then Inr (take (hi - lo) (drop lo v))
      else Inl UndefinedBehaviour)"

text \<open>\<^verbatim>\<open>std::vector::resize(n, v)\<close>.\<close>

definition resize :: "nat \<Rightarrow> 'a \<Rightarrow> 'a list \<Rightarrow> 'a list" where
  "resize n v xs = take n xs @ replicate (n - length xs) v"

text \<open>
  \<^verbatim>\<open>std::max_element\<close> followed by \<^verbatim>\<open>std::distance\<close> from \<^verbatim>\<open>begin()\<close>: the index of the
  first largest element; on an empty range the result is \<^verbatim>\<open>end()\<close>, at distance 0.
\<close>

definition max_element :: "scalar list \<Rightarrow> nat" where
  "max_element xs =
     foldl (\<lambda>largest i. if xs ! largest < xs ! i then i else largest) 0 [1..<length xs]"

section \<open>Types.hpp\<close>

type_synonym ActivationType = "32 word"
type_synonym LossType = "32 word"
type_synonym OptimizerType = "32 word"

definition ActivationType_None :: ActivationType where "ActivationType_None = 0"
definition ActivationType_ReLU :: ActivationType where "ActivationType_ReLU = 1"
definition ActivationType_Sigmoid :: ActivationType where "ActivationType_Sigmoid = 2"
definition ActivationType_Tanh :: ActivationType where "ActivationType_Tanh = 3"
definition ActivationType_LeakyReLU :: ActivationType where "ActivationType_LeakyReLU = 4"
definition ActivationType_ELU :: ActivationType where "ActivationType_ELU = 5"
definition ActivationType_Swish :: ActivationType where "ActivationType_Swish = 6"
definition ActivationType_GELU :: ActivationType where "ActivationType_GELU = 7"
definition ActivationType_Softmax :: ActivationType where "ActivationType_Softmax = 8"

definition OptimizerType_SGD :: OptimizerType where "OptimizerType_SGD = 0"
definition OptimizerType_Adam :: OptimizerType where "OptimizerType_Adam = 1"
definition OptimizerType_RMSprop :: OptimizerType where "OptimizerType_RMSprop = 2"
definition OptimizerType_AdaGrad :: OptimizerType where "OptimizerType_AdaGrad = 3"

definition LossType_MeanSquaredError :: LossType where "LossType_MeanSquaredError = 0"
definition LossType_CrossEntropy :: LossType where "LossType_CrossEntropy = 1"
definition LossType_BinaryCrossEntropy :: LossType where "LossType_BinaryCrossEntropy = 2"
definition LossType_Huber :: LossType where "LossType_Huber = 3"
definition LossType_FocalLoss :: LossType where "LossType_FocalLoss = 4"

section \<open>ActivationFunctions.hpp\<close>

definition linear :: "scalar \<Rightarrow> scalar" where
  "linear x = x"

definition linearDerivative :: "scalar \<Rightarrow> scalar" where
  "linearDerivative x = 1"

definition relu :: "scalar \<Rightarrow> scalar" where
  "relu x = max 0 x"

definition reluDerivative :: "scalar \<Rightarrow> scalar" where
  "reluDerivative x = (if x > 0 then 1 else 0)"

definition leakyRelu :: "scalar \<Rightarrow> scalar \<Rightarrow> scalar" where
  "leakyRelu x alpha = (if x > 0 then x else alpha * x)"

definition leakyReluDerivative :: "scalar \<Rightarrow> scalar \<Rightarrow> scalar" where
  "leakyReluDerivative x alpha = (if x > 0 then 1 else alpha)"

definition sigmoid :: "scalar \<Rightarrow> scalar" where
  "sigmoid x0 = (let x = max (- 500) (min 500 x0) in 1 / (1 + exp (- x)))"

definition sigmoidDerivative :: "scalar \<Rightarrow> scalar" where
  "sigmoidDerivative x = (let s = sigmoid x in s * (1 - s))"

definition tanhDerivative :: "scalar \<Rightarrow> scalar" where
  "tanhDerivative x = (let t = tanh x in 1 - t * t)"

definition elu :: "scalar \<Rightarrow> scalar \<Rightarrow> scalar" where
  "elu x alpha = (if x > 0 then x else alpha * (exp x - 1))"

definition eluDerivative :: "scalar \<Rightarrow> scalar \<Rightarrow> scalar" where
  "eluDerivative x alpha = (if x > 0 then 1 else alpha * exp x)"

definition swish :: "scalar \<Rightarrow> scalar" where
  "swish x = x * sigmoid x"

definition swishDerivative :: "scalar \<Rightarrow> scalar" where
  "swishDerivative x = (let s = sigmoid x; sw = x * s in sw + s * (1 - sw))"

definition sqrt_2_over_pi :: scalar where
  "sqrt_2_over_pi = 7978845608028654 / 10 ^ 16"

definition gelu_coeff :: scalar where
  "gelu_coeff = 44715 / 10 ^ 6"

definition gelu :: "scalar \<Rightarrow> scalar" where
  "gelu x = (let x_cubed = x * x * x
             in (1 / 2) * x * (1 + tanh (sqrt_2_over_pi * (x + gelu_coeff * x_cubed))))"

definition geluDerivative :: "scalar \<Rightarrow> scalar" where
  "geluDerivative x =
     (let x_squared = x * x;
          x_cubed = x_squared * x;
          inner = sqrt_2_over_pi * (x + gelu_coeff * x_cubed);
          tanh_inner = tanh inner;
          sech_squared = 1 - tanh_inner * tanh_inner
      in (1 / 2) * (1 + tanh_inner)
         + (1 / 2) * x * sech_squared * sqrt_2_over_pi * (1 + 3 * gelu_coeff * x_squared))"

text \<open>
  \<^verbatim>\<open>softmax\<close> dereferences \<^verbatim>\<open>std::max_element(x.begin(), x.end())\<close> without a check,
  which on an empty vector reads \<^verbatim>\<open>end()\<close>.
\<close>

definition softmax :: "scalar list \<Rightarrow> fault + scalar list" where
  "softmax x =
     (if x = [] then Inl UndefinedBehaviour
      else let max_val = x ! max_element x;
               result = map (\<lambda>v. exp (v - max_val)) x;
               total = foldl (+) 0 result
           in Inr (map (\<lambda>r. r / total) result))"

definition ActivationFactory_getFunction :: "ActivationType \<Rightarrow> scalar \<Rightarrow> scalar" where
  "ActivationFactory_getFunction type =
     (if type = ActivationType_None then linear
      else if type = ActivationType_ReLU then relu
      else if type = ActivationType_Sigmoid then sigmoid
      else if type = ActivationType_Tanh then tanh
      else if type = ActivationType_LeakyReLU then (\<lambda>x. leakyRelu x (1 / 100))
      else if type = ActivationType_ELU then (\<lambda>x. elu x 1)
      else if type = ActivationType_Swish then swish
      else if type = ActivationType_GELU then gelu
      else if type = ActivationType_Softmax then linear
      else relu)"

definition ActivationFactory_getDerivative :: "ActivationType \<Rightarrow> scalar \<Rightarrow> scalar" where
  "ActivationFactory_getDerivative type =
     (if type = ActivationType_None then linearDerivative
      else if type = ActivationType_ReLU then reluDerivative
      else if type = ActivationType_Sigmoid then sigmoidDerivative
      else if type = ActivationType_Tanh then tanhDerivative
      else if type = ActivationType_LeakyReLU then (\<lambda>x. leakyReluDerivative x (1 / 100))
      else if type = ActivationType_ELU then (\<lambda>x. eluDerivative x 1)
      else if type = ActivationType_Swish then swishDerivative
      else if type = ActivationType_GELU then geluDerivative
      else if type = ActivationType_Softmax then linearDerivative
      else reluDerivative)"

section \<open>LossFunctions.hpp\<close>

text \<open>
  The loss functions return 0 when the two vectors differ in length; the gradient
  functions have no such check and read \<^verbatim>\<open>targets[i]\<close> for every index of \<^verbatim>\<open>outputs\<close>.
  \<^verbatim>\<open>std::pow\<close> is only called with the default exponents \<^verbatim>\<open>gamma = 2\<close> and
  \<^verbatim>\<open>gamma - 1 = 1\<close>, written here as a square and as the identity.
\<close>

definition epsilon :: scalar where
  "epsilon = 1 / 10 ^ 15"

definition clampedOutput :: "scalar \<Rightarrow> scalar" where
  "clampedOutput out = max epsilon (min (1 - epsilon) out)"

fun zipF :: "('a \<Rightarrow> 'b \<Rightarrow> 'c) \<Rightarrow> 'a list \<Rightarrow> 'b list \<Rightarrow> fault + 'c list" where
  "zipF f [] ts = Inr []"
| "zipF f (x # xs) [] = Inl UndefinedBehaviour"
| "zipF f (x # xs) (t # ts) = bindF (zipF f xs ts) (\<lambda>r. Inr (f x t # r))"

definition meanSquaredError :: "scalar list \<Rightarrow> scalar list \<Rightarrow> scalar" where
  "meanSquaredError outputs targets =
     (if length outputs \<noteq> length targets then 0
      else foldl (\<lambda>loss (out, t). loss + (out - t) * (out - t)) 0 (zip outputs targets)
           / real (length outputs))"

definition meanSquaredErrorGradient :: "scalar list \<Rightarrow> scalar list \<Rightarrow> fault + scalar list" where
  "meanSquaredErrorGradient outputs targets =
     zipF (\<lambda>out t. 2 * (out - t) / real (length outputs)) outputs targets"

definition crossEntropy :: "scalar list \<Rightarrow> scalar list \<Rightarrow> scalar" where
  "crossEntropy outputs targets =
     (if length outputs \<noteq> length targets then 0
      else foldl (\<lambda>loss (out, t). loss - t * ln (clampedOutput out)) 0 (zip outputs targets))"

definition crossEntropyGradient :: "scalar list \<Rightarrow> scalar list \<Rightarrow> fault + scalar list" where
  "crossEntropyGradient outputs targets =
     zipF (\<lambda>out t. - t / clampedOutput out) outputs targets"

definition binaryCrossEntropy :: "scalar list \<Rightarrow> scalar list \<Rightarrow> scalar" where
  "binaryCrossEntropy outputs targets =
     (if length outputs \<noteq> length targets then 0
      else foldl (\<lambda>loss (out, t).
                    loss - (t * ln (clampedOutput out) + (1 - t) * ln (1 - clampedOutput out)))
             0 (zip outputs targets)
           / real (length outputs))"

definition binaryCrossEntropyGradient :: "scalar list \<Rightarrow> scalar list \<Rightarrow> fault + scalar list" where
  "binaryCrossEntropyGradient outputs targets =
     zipF (\<lambda>out t. (clampedOutput out - t) / (clampedOutput out * (1 - clampedOutput out))
                    / real (length outputs)) outputs targets"

definition huberLoss :: "scalar list \<Rightarrow> scalar list \<Rightarrow> scalar \<Rightarrow> scalar" where
  "huberLoss outputs targets delta =
     (if length outputs \<noteq> length targets then 0
      else foldl (\<lambda>loss (out, t).
                    let diff = \<bar>out - t\<bar>
                    in if diff \<le> delta then loss + (1 / 2) * diff * diff
                       else loss + (delta * diff - (1 / 2) * delta * delta))
             0 (zip outputs targets)
           / real (length outputs))"

definition huberLossGradient :: "scalar list \<Rightarrow> scalar list \<Rightarrow> scalar \<Rightarrow> fault + scalar list" where
  "huberLossGradient outputs targets delta =
     zipF (\<lambda>out t. let diff = out - t; absDiff = \<bar>diff\<bar>
                    in (if absDiff \<le> delta then diff
                        else delta * (if diff > 0 then 1 else - 1))
                       / real (length outputs)) outputs targets"

definition focal_pt :: "scalar \<Rightarrow> scalar \<Rightarrow> scalar" where
  "focal_pt out t = t * clampedOutput out + (1 - t) * (1 - clampedOutput out)"

definition focalLoss :: "scalar list \<Rightarrow> scalar list \<Rightarrow> scalar \<Rightarrow> scalar" where
  "focalLoss outputs targets alpha =
     (if length outputs \<noteq> length targets then 0
      else foldl (\<lambda>loss (out, t).
                    let pt = focal_pt out t
                    in loss - alpha * ((1 - pt) * (1 - pt)) * ln pt)
             0 (zip outputs targets)
           / real (length outputs))"

definition focalLossGradient :: "scalar list \<Rightarrow> scalar list \<Rightarrow> scalar \<Rightarrow> fault + scalar list" where
  "focalLossGradient outputs targets alpha =
     zipF (\<lambda>out t. let pt = focal_pt out t;
                        factor1 = alpha * ((1 - pt) * (1 - pt));
                        factor2 = 2 * (1 - pt) * ln pt
                    in (if t = 1 then - factor1 / clampedOutput out + factor2
                        else factor1 / (1 - clampedOutput out) - factor2)
                       / real (length outputs)) outputs targets"

definition LossFactory_getFunction :: "LossType \<Rightarrow> scalar list \<Rightarrow> scalar list \<Rightarrow> scalar" where
  "LossFactory_getFunction type =
     (if type = LossType_MeanSquaredError then meanSquaredError
      else if type = LossType_CrossEntropy then crossEntropy
      else if type = LossType_BinaryCrossEntropy then binaryCrossEntropy
      else if type = LossType_Huber then (\<lambda>outputs targets. huberLoss outputs targets 1)
      else if type = LossType_FocalLoss then (\<lambda>outputs targets. focalLoss outputs targets 1)
      else meanSquaredError)"

definition LossFactory_getGradient ::
  "LossType \<Rightarrow> scalar list \<Rightarrow> scalar list \<Rightarrow> fault + scalar list" where
  "LossFactory_getGradient type =
     (if type = LossType_MeanSquaredError then meanSquaredErrorGradient
      else if type = LossType_CrossEntropy then crossEntropyGradient
      else if type = LossType_BinaryCrossEntropy then binaryCrossEntropyGradient
      else if type = LossType_Huber then (\<lambda>outputs targets. huberLossGradient outputs targets 1)
      else if type = LossType_FocalLoss then (\<lambda>outputs targets. focalLossGradient outputs targets 1)
      else meanSquaredErrorGradient)"

section \<open>The persisted document\<close>

text \<open>
  The documents are values of the JSON library the repository links against
  (\<^verbatim>\<open>nlohmann::json\<close>); the part of it that \<^verbatim>\<open>toJson\<close> and \<^verbatim>\<open>fromJson\<close> use is modelled
  here. An object is a map from keys to values, kept as an association list read with
  \<open>map_of\<close>. \<^verbatim>\<open>get<T>()\<close> converts between the three number kinds and throws a type
  error on a value of another kind; \<^verbatim>\<open>get<bool>()\<close> and \<^verbatim>\<open>get<std::string>()\<close> accept
  their own kind only.
\<close>

datatype json =
    Null
  | Boolean bool
  | NumberInteger int
  | NumberUnsigned nat
  | NumberFloat scalar
  | String string
  | Array "json list"
  | Object "(string \<times> json) list"

definition contains :: "json \<Rightarrow> string \<Rightarrow> bool" where
  "contains j key = (case j of Object kvs \<Rightarrow> map_of kvs key \<noteq> None | _ \<Rightarrow> False)"

text \<open>
  \<^verbatim>\<open>json[key]\<close> on a constant document; every use is guarded by \<^verbatim>\<open>contains\<close>.
\<close>

definition at_key :: "json \<Rightarrow> string \<Rightarrow> json" where
  "at_key j key = (case j of Object kvs \<Rightarrow> (case map_of kvs key of Some v \<Rightarrow> v | None \<Rightarrow> Null)
                   | _ \<Rightarrow> Null)"

definition is_array :: "json \<Rightarrow> bool" where
  "is_array j = (case j of Array _ \<Rightarrow> True | _ \<Rightarrow> False)"

definition elements :: "json \<Rightarrow> json list" where
  "elements j = (case j of Array vs \<Rightarrow> vs | _ \<Rightarrow> [])"

definition get_scalar :: "json \<Rightarrow> fault + scalar" where
  "get_scalar j = (case j of NumberFloat r \<Rightarrow> Inr r
                   | NumberInteger i \<Rightarrow> Inr (real_of_int i)
                   | NumberUnsigned n \<Rightarrow> Inr (real n)
                   | _ \<Rightarrow> Inl TypeError)"

definition get_int :: "json \<Rightarrow> fault + 32 word" where
  "get_int j = (case j of NumberInteger i \<Rightarrow> Inr (word_of_int i)
                | NumberUnsigned n \<Rightarrow> Inr (word_of_nat n)
                | NumberFloat r \<Rightarrow>
                    (let i = (if r < 0 then \<lceil>r\<rceil> else \<lfloor>r\<rfloor>)
                     in if - (2 ^ 31) \<le> i \<and> i < 2 ^ 31 then Inr (word_of_int i)
                        else Inl UndefinedBehaviour)
                | Boolean b \<Rightarrow> Inr (if b then 1 else 0)
                | _ \<Rightarrow> Inl TypeError)"

definition get_size_t :: "json \<Rightarrow> fault + 64 word" where
  "get_size_t j = (case j of NumberUnsigned n \<Rightarrow> Inr (word_of_nat n)
                   | NumberInteger i \<Rightarrow> Inr (word_of_int i)
                   | NumberFloat r \<Rightarrow>
                       (let i = (if r < 0 then \<lceil>r\<rceil> else \<lfloor>r\<rfloor>)
                        in if 0 \<le> i \<and> i < 2 ^ 64 then Inr (word_of_int i)
                           else Inl UndefinedBehaviour)
                   | _ \<Rightarrow> Inl TypeError)"

definition get_bool :: "json \<Rightarrow> fault + bool" where
  "get_bool j = (case j of Boolean b \<Rightarrow> Inr b | _ \<Rightarrow> Inl TypeError)"

definition get_string :: "json \<Rightarrow> fault + string" where
  "get_string j = (case j of String s \<Rightarrow> Inr s | _ \<Rightarrow> Inl TypeError)"

definition get_scalar_vector :: "json \<Rightarrow> fault + scalar list" where
  "get_scalar_vector j = (case j of Array vs \<Rightarrow> mapF get_scalar vs | _ \<Rightarrow> Inl TypeError)"

text \<open>
  The pattern of every \<^verbatim>\<open>fromJson\<close>:
  \<^verbatim>\<open>if (json.contains(key)) { field = json[key].get<...>(); }\<close>.
\<close>

definition load ::
  "json \<Rightarrow> string \<Rightarrow> (json \<Rightarrow> fault + 'v) \<Rightarrow> ('v \<Rightarrow> 's \<Rightarrow> 's) \<Rightarrow> 's \<Rightarrow> fault + 's" where
  "load j key getter setter s =
     (if contains j key then bindF (getter (at_key j key)) (\<lambda>v. Inr (setter v s)) else Inr s)"

section \<open>Neuron\<close>

record Neuron =
  n_id :: "64 word"
  n_activation :: scalar
  n_bias :: scalar
  n_weightedInput :: scalar
  n_gradient :: scalar
  n_delta :: scalar
  n_trainable :: bool
  n_name :: string
  n_inputWeights :: "scalar list"

definition Neuron_ctor :: "64 word \<Rightarrow> Neuron" where
  "Neuron_ctor i = \<lparr> n_id = i, n_activation = 0, n_bias = 0, n_weightedInput = 0,
                     n_gradient = 0, n_delta = 0, n_trainable = True, n_name = [],
                     n_inputWeights = [] \<rparr>"

definition Neuron_applyActivation :: "(scalar \<Rightarrow> scalar) \<Rightarrow> Neuron \<Rightarrow> Neuron" where
  "Neuron_applyActivation activationFunc n =
     n\<lparr>n_activation := activationFunc (n_weightedInput n + n_bias n)\<rparr>"

definition Neuron_computeActivationDerivative :: "(scalar \<Rightarrow> scalar) \<Rightarrow> Neuron \<Rightarrow> scalar" where
  "Neuron_computeActivationDerivative derivativeFunc n =
     derivativeFunc (n_weightedInput n + n_bias n)"

definition Neuron_toJson :: "Neuron \<Rightarrow> json" where
  "Neuron_toJson n = Object
     [(''id'', NumberUnsigned (unat (n_id n))),
      (''activation'', NumberFloat (n_activation n)),
      (''bias'', NumberFloat (n_bias n)),
      (''weighted_input'', NumberFloat (n_weightedInput n)),
      (''gradient'', NumberFloat (n_gradient n)),
      (''delta'', NumberFloat (n_delta n)),
      (''trainable'', Boolean (n_trainable n)),
      (''name'', String (n_name n)),
      (''input_weights'', Array (map NumberFloat (n_inputWeights n)))]"

definition Neuron_fromJson :: "json \<Rightarrow> Neuron \<Rightarrow> fault + Neuron" where
  "Neuron_fromJson j n0 =
     bindF (load j ''id'' get_size_t (\<lambda>v n. n\<lparr>n_id := v\<rparr>) n0) (\<lambda>n1.
     bindF (load j ''activation'' get_scalar (\<lambda>v n. n\<lparr>n_activation := v\<rparr>) n1) (\<lambda>n2.
     bindF (load j ''bias'' get_scalar (\<lambda>v n. n\<lparr>n_bias := v\<rparr>) n2) (\<lambda>n3.
     bindF (load j ''weighted_input'' get_scalar (\<lambda>v n. n\<lparr>n_weightedInput := v\<rparr>) n3) (\<lambda>n4.
     bindF (load j ''gradient'' get_scalar (\<lambda>v n. n\<lparr>n_gradient := v\<rparr>) n4) (\<lambda>n5.
     bindF (load j ''delta'' get_scalar (\<lambda>v n. n\<lparr>n_delta := v\<rparr>) n5) (\<lambda>n6.
     bindF (load j ''trainable'' get_bool (\<lambda>v n. n\<lparr>n_trainable := v\<rparr>) n6) (\<lambda>n7.
     bindF (load j ''name'' get_string (\<lambda>v n. n\<lparr>n_name := v\<rparr>) n7) (\<lambda>n8.
     load j ''input_weights'' get_scalar_vector (\<lambda>v n. n\<lparr>n_inputWeights := v\<rparr>) n8))))))))"

section \<open>Layer\<close>

record Layer =
  neurons :: "Neuron list"
  l_name :: string
  activationType :: ActivationType
  dropoutRate :: scalar
  l_trainable :: bool
  dropoutMask :: "bool list"

text \<open>
  The members \<^verbatim>\<open>activationFunc_\<close> and \<^verbatim>\<open>activationDerivFunc_\<close> are set by
  \<^verbatim>\<open>updateActivationFunctions\<close> at every assignment of \<^verbatim>\<open>activationType_\<close>, so they are
  read off the tag.
\<close>

definition activationFunc :: "Layer \<Rightarrow> scalar \<Rightarrow> scalar" where
  "activationFunc l = ActivationFactory_getFunction (activationType l)"

definition activationDerivFunc :: "Layer \<Rightarrow> scalar \<Rightarrow> scalar" where
  "activationDerivFunc l = ActivationFactory_getDerivative (activationType l)"

definition Layer_ctor :: "nat \<Rightarrow> ActivationType \<Rightarrow> string \<Rightarrow> Layer" where
  "Layer_ctor sz activation name =
     \<lparr> neurons = map (\<lambda>i. Neuron_ctor (word_of_nat i)) [0..<sz], l_name = name,
       activationType = activation, dropoutRate = 0, l_trainable = True,
       dropoutMask = replicate sz True \<rparr>"

definition getSize :: "Layer \<Rightarrow> nat" where
  "getSize l = length (neurons l)"

definition getActivations :: "Layer \<Rightarrow> scalar list" where
  "getActivations l = map n_activation (neurons l)"

definition setActivations :: "build \<Rightarrow> scalar list \<Rightarrow> Layer \<Rightarrow> fault + Layer" where
  "setActivations b activations l =
     bindF (NNV_ASSERT b (length activations = length (neurons l))) (\<lambda>_.
     bindF (zipF (\<lambda>n a. n\<lparr>n_activation := a\<rparr>) (neurons l) activations) (\<lambda>ns.
     Inr (l\<lparr>neurons := ns\<rparr>)))"

text \<open>
  The inner loop of \<^verbatim>\<open>Layer::forward\<close> runs over the indices of \<^verbatim>\<open>inputs\<close> and reads
  \<^verbatim>\<open>weights[i]\<close>.
\<close>

fun weightedSum :: "scalar \<Rightarrow> scalar list \<Rightarrow> scalar list \<Rightarrow> fault + scalar" where
  "weightedSum s [] ws = Inr s"
| "weightedSum s (x # xs) [] = Inl UndefinedBehaviour"
| "weightedSum s (x # xs) (w # ws) = weightedSum (s + x * w) xs ws"

definition Layer_forward :: "build \<Rightarrow> scalar list \<Rightarrow> Layer \<Rightarrow> fault + Layer" where
  "Layer_forward b inputs l =
     bindF (NNV_ASSERT b (neurons l \<noteq> [])) (\<lambda>_.
     bindF (mapF (\<lambda>neuron.
              bindF (NNV_ASSERT b (length (n_inputWeights neuron) = length inputs)) (\<lambda>_.
              bindF (weightedSum 0 inputs (n_inputWeights neuron)) (\<lambda>s.
              Inr (neuron\<lparr>n_weightedInput := s\<rparr>))))
            (neurons l)) (\<lambda>ns.
     Inr (l\<lparr>neurons := ns\<rparr>)))"

definition Layer_applyActivation :: "Layer \<Rightarrow> fault + Layer" where
  "Layer_applyActivation l =
     (if activationType l = ActivationType_Softmax then
        bindF (softmax (map (\<lambda>n. n_weightedInput n + n_bias n) (neurons l))) (\<lambda>softmaxOutputs.
        bindF (zipF (\<lambda>n a. n\<lparr>n_activation := a\<rparr>) (neurons l) softmaxOutputs) (\<lambda>ns.
        Inr (l\<lparr>neurons := ns\<rparr>)))
      else Inr (l\<lparr>neurons := map (Neuron_applyActivation (activationFunc l)) (neurons l)\<rparr>))"

record rng =
  uniform_real :: "nat \<Rightarrow> scalar"
  uniform_index :: "nat \<Rightarrow> nat"

definition skip_reals :: "nat \<Rightarrow> rng \<Rightarrow> rng" where
  "skip_reals k g = g\<lparr>uniform_real := (\<lambda>i. uniform_real g (i + k))\<rparr>"

definition skip_indices :: "nat \<Rightarrow> rng \<Rightarrow> rng" where
  "skip_indices k g = g\<lparr>uniform_index := (\<lambda>i. uniform_index g (i + k))\<rparr>"

text \<open>
  The loop of \<^verbatim>\<open>Layer::applyDropout\<close> runs over the indices of \<^verbatim>\<open>dropoutMask_\<close> and
  reads \<^verbatim>\<open>neurons_[i]\<close>; draw \<open>k\<close> of the stream decides entry \<open>k\<close>.
\<close>

fun dropout_loop ::
  "scalar \<Rightarrow> (nat \<Rightarrow> scalar) \<Rightarrow> nat \<Rightarrow> bool list \<Rightarrow> Neuron list \<Rightarrow> fault + (bool list \<times> Neuron list)"
where
  "dropout_loop keepProb draws k [] ns = Inr ([], ns)"
| "dropout_loop keepProb draws k (m # ms) [] = Inl UndefinedBehaviour"
| "dropout_loop keepProb draws k (m # ms) (n # ns) =
     (let keep = draws k < keepProb;
          n' = (if \<not> keep then n\<lparr>n_activation := 0\<rparr>
                else n\<lparr>n_activation := n_activation n / keepProb\<rparr>)
      in bindF (dropout_loop keepProb draws (Suc k) ms ns) (\<lambda>(ms', ns').
         Inr (keep # ms', n' # ns')))"

definition Layer_applyDropout :: "bool \<Rightarrow> rng \<Rightarrow> Layer \<Rightarrow> fault + (Layer \<times> rng)" where
  "Layer_applyDropout training g l =
     (if \<not> training \<or> dropoutRate l \<le> 0 then
        Inr (l\<lparr>dropoutMask := replicate (length (dropoutMask l)) True\<rparr>, g)
      else
        (let keepProb = 1 - dropoutRate l
         in bindF (dropout_loop keepProb (uniform_real g) 0 (dropoutMask l) (neurons l))
              (\<lambda>(mask, ns).
                 Inr (l\<lparr>dropoutMask := mask, neurons := ns\<rparr>,
                      skip_reals (length (dropoutMask l)) g))))"

text \<open>
  The inner loop of \<^verbatim>\<open>Layer::computeGradients\<close> for unit \<open>i\<close> runs over the indices of
  \<^verbatim>\<open>nextLayerDeltas\<close> and reads \<^verbatim>\<open>nextLayerWeights[j][i]\<close>.
\<close>

fun delta_sum ::
  "build \<Rightarrow> nat \<Rightarrow> scalar \<Rightarrow> scalar list \<Rightarrow> scalar list list \<Rightarrow> fault + scalar" where
  "delta_sum b i s [] ws = Inr s"
| "delta_sum b i s (d # ds) [] = Inl UndefinedBehaviour"
| "delta_sum b i s (d # ds) (w # ws) =
     bindF (NNV_ASSERT b (i < length w)) (\<lambda>_.
     if i < length w then delta_sum b i (s + d * w ! i) ds ws else Inl UndefinedBehaviour)"

definition Layer_computeGradients ::
  "build \<Rightarrow> scalar list \<Rightarrow> scalar list list \<Rightarrow> Layer \<Rightarrow> fault + Layer" where
  "Layer_computeGradients b nextLayerDeltas nextLayerWeights l =
     bindF (NNV_ASSERT b (length nextLayerDeltas = length nextLayerWeights)) (\<lambda>_.
     bindF (mapF (\<lambda>(i, neuron).
              bindF (delta_sum b i 0 nextLayerDeltas nextLayerWeights) (\<lambda>delta.
              Inr (neuron\<lparr>n_delta :=
                     delta * Neuron_computeActivationDerivative (activationDerivFunc l) neuron\<rparr>)))
            (zip [0..<length (neurons l)] (neurons l))) (\<lambda>ns.
     Inr (l\<lparr>neurons := ns\<rparr>)))"

definition Layer_updateWeights :: "build \<Rightarrow> scalar \<Rightarrow> scalar list \<Rightarrow> Layer \<Rightarrow> fault + Layer" where
  "Layer_updateWeights b learningRate prevLayerActivations l =
     (if \<not> l_trainable l then Inr l
      else
        bindF (mapF (\<lambda>neuron.
                 bindF (NNV_ASSERT b (length (n_inputWeights neuron)
                                       = length prevLayerActivations)) (\<lambda>_.
                 let delta = n_delta neuron in
                 bindF (zipF (\<lambda>w a. w - learningRate * delta * a)
                          (n_inputWeights neuron) prevLayerActivations) (\<lambda>weights.
                 Inr (neuron\<lparr>n_inputWeights := weights,
                             n_bias := n_bias neuron - learningRate * delta\<rparr>))))
               (neurons l)) (\<lambda>ns.
        Inr (l\<lparr>neurons := ns\<rparr>)))"

definition Layer_toJson :: "Layer \<Rightarrow> json" where
  "Layer_toJson l = Object
     [(''name'', String (l_name l)),
      (''size'', NumberUnsigned (length (neurons l))),
      (''activation_type'', NumberInteger (sint (activationType l))),
      (''dropout_rate'', NumberFloat (dropoutRate l)),
      (''trainable'', Boolean (l_trainable l)),
      (''neurons'', Array (map Neuron_toJson (neurons l)))]"

definition Layer_fromJson :: "json \<Rightarrow> Layer \<Rightarrow> fault + Layer" where
  "Layer_fromJson j l0 =
     bindF (load j ''name'' get_string (\<lambda>v l. l\<lparr>l_name := v\<rparr>) l0) (\<lambda>l1.
     bindF (load j ''activation_type'' get_int (\<lambda>v l. l\<lparr>activationType := v\<rparr>) l1) (\<lambda>l2.
     bindF (load j ''dropout_rate'' get_scalar (\<lambda>v l. l\<lparr>dropoutRate := v\<rparr>) l2) (\<lambda>l3.
     bindF (load j ''trainable'' get_bool (\<lambda>v l. l\<lparr>l_trainable := v\<rparr>) l3) (\<lambda>l4.
     if contains j ''neurons'' \<and> is_array (at_key j ''neurons'') then
       bindF (mapF (\<lambda>neuronJson. Neuron_fromJson neuronJson (Neuron_ctor 0))
                (elements (at_key j ''neurons''))) (\<lambda>ns.
       Inr (l4\<lparr>neurons := ns, dropoutMask := resize (length ns) True (dropoutMask l4)\<rparr>))
     else Inr l4))))"

section \<open>NeuralNetwork\<close>

record Network =
  nn_name :: string
  layers :: "Layer list"
  learningRate :: scalar
  lossType :: LossType
  optimizerType :: OptimizerType
  isTraining :: bool
  shouldStop :: bool
  trainingProgress :: scalar

text \<open>
  \<^verbatim>\<open>lossFunction_\<close> and \<^verbatim>\<open>lossGradientFunction_\<close> are set by \<^verbatim>\<open>updateLossFunction\<close> at
  every assignment of \<^verbatim>\<open>lossType_\<close>; \<^verbatim>\<open>updateOptimizer\<close> has an empty body.
\<close>

definition lossFunction :: "Network \<Rightarrow> scalar list \<Rightarrow> scalar list \<Rightarrow> scalar" where
  "lossFunction net = LossFactory_getFunction (lossType net)"

definition lossGradientFunction :: "Network \<Rightarrow> scalar list \<Rightarrow> scalar list \<Rightarrow> fault + scalar list" where
  "lossGradientFunction net = LossFactory_getGradient (lossType net)"

definition stopTraining :: "Network \<Rightarrow> Network" where
  "stopTraining net = net\<lparr>shouldStop := True\<rparr>"


subsection \<open>forward, predict\<close>

text \<open>
  The loop of \<^verbatim>\<open>NeuralNetwork::forward\<close> over the layers from index 1, carrying the
  activations of the layer before.
\<close>

fun forward_loop ::
  "build \<Rightarrow> bool \<Rightarrow> scalar list \<Rightarrow> rng \<Rightarrow> Layer list \<Rightarrow> fault + (Layer list \<times> rng)" where
  "forward_loop b training prevActivations g [] = Inr ([], g)"
| "forward_loop b training prevActivations g (l # ls) =
     bindF (Layer_forward b prevActivations l) (\<lambda>l1.
     bindF (Layer_applyActivation l1) (\<lambda>l2.
     bindF (Layer_applyDropout training g l2) (\<lambda>(l3, g1).
     bindF (forward_loop b training (getActivations l3) g1 ls) (\<lambda>(ls', g2).
     Inr (l3 # ls', g2)))))"

definition Network_forward ::
  "build \<Rightarrow> scalar list \<Rightarrow> rng \<Rightarrow> Network \<Rightarrow> fault + (scalar list \<times> Network \<times> rng)" where
  "Network_forward b inputs g net =
     (case layers net of
        [] \<Rightarrow> Inr ([], net, g)
      | l0 # rest \<Rightarrow>
          if length inputs \<noteq> getSize l0 then Inr ([], net, g)
          else
            bindF (setActivations b inputs l0) (\<lambda>l0'.
            bindF (forward_loop b (isTraining net) (getActivations l0') g rest) (\<lambda>(rest', g').
            Inr (getActivations (last (l0' # rest')), net\<lparr>layers := l0' # rest'\<rparr>, g'))))"

definition predict ::
  "build \<Rightarrow> scalar list \<Rightarrow> rng \<Rightarrow> Network \<Rightarrow> fault + (scalar list \<times> Network \<times> rng)" where
  "predict b inputs g net =
     (let wasTraining = isTraining net
      in bindF (Network_forward b inputs g (net\<lparr>isTraining := False\<rparr>)) (\<lambda>(outputs, net', g').
         Inr (outputs, net'\<lparr>isTraining := wasTraining\<rparr>, g')))"

fun predictBatch ::
  "build \<Rightarrow> scalar list list \<Rightarrow> rng \<Rightarrow> Network \<Rightarrow> fault + (scalar list list \<times> Network \<times> rng)"
where
  "predictBatch b [] g net = Inr ([], net, g)"
| "predictBatch b (inputs # inputBatch) g net =
     bindF (predict b inputs g net) (\<lambda>(out, net1, g1).
     bindF (predictBatch b inputBatch g1 net1) (\<lambda>(outs, net2, g2).
     Inr (out # outs, net2, g2)))"

subsection \<open>backward, trainSample, trainBatch\<close>

text \<open>
  The loop of \<^verbatim>\<open>backward\<close> over the hidden layers, from the last but one down to index 1;
  the argument is the list of layers from index 1, whose last element is the output
  layer with its deltas already set.
\<close>

fun backward_hidden :: "build \<Rightarrow> Layer list \<Rightarrow> fault + Layer list" where
  "backward_hidden b [] = Inr []"
| "backward_hidden b [l] = Inr [l]"
| "backward_hidden b (currentLayer # l' # ls) =
     bindF (backward_hidden b (l' # ls)) (\<lambda>r.
     case r of
       [] \<Rightarrow> Inr []
     | nextLayer # _ \<Rightarrow>
         bindF (Layer_computeGradients b (map n_delta (neurons nextLayer))
                  (map n_inputWeights (neurons nextLayer)) currentLayer) (\<lambda>c.
         Inr (c # r)))"

fun update_loop :: "build \<Rightarrow> scalar \<Rightarrow> scalar list \<Rightarrow> Layer list \<Rightarrow> fault + Layer list" where
  "update_loop b lr prevActivations [] = Inr []"
| "update_loop b lr prevActivations (l # ls) =
     bindF (Layer_updateWeights b lr prevActivations l) (\<lambda>l'.
     bindF (update_loop b lr (getActivations l') ls) (\<lambda>ls'.
     Inr (l' # ls')))"

definition backward ::
  "build \<Rightarrow> scalar list \<Rightarrow> scalar list \<Rightarrow> Network \<Rightarrow> fault + (scalar \<times> Network)" where
  "backward b targets outputs net =
     (if length (layers net) < 2 then Inr (0, net)
      else
        (let loss = lossFunction net outputs targets;
             l0 = hd (layers net);
             hidden = butlast (tl (layers net));
             outputLayer = last (layers net)
         in bindF (lossGradientFunction net outputs targets) (\<lambda>outputGradients.
            bindF (zipF (\<lambda>n d. n\<lparr>n_delta := d\<rparr>) (neurons outputLayer) outputGradients) (\<lambda>ns.
            bindF (backward_hidden b (hidden @ [outputLayer\<lparr>neurons := ns\<rparr>])) (\<lambda>ls.
            bindF (update_loop b (learningRate net) (getActivations l0) ls) (\<lambda>ls'.
            Inr (loss, net\<lparr>layers := l0 # ls'\<rparr>)))))))"

definition trainSample ::
  "build \<Rightarrow> scalar list \<Rightarrow> scalar list \<Rightarrow> rng \<Rightarrow> Network \<Rightarrow> fault + (scalar \<times> Network \<times> rng)"
where
  "trainSample b inputs targets g net =
     bindF (Network_forward b inputs g net) (\<lambda>(outputs, net1, g1).
     bindF (backward b targets outputs net1) (\<lambda>(loss, net2).
     Inr (loss, net2, g1)))"

fun trainBatch_loop ::
  "build \<Rightarrow> (scalar list \<times> scalar list) list \<Rightarrow> scalar \<Rightarrow> rng \<Rightarrow> Network
     \<Rightarrow> fault + (scalar \<times> Network \<times> rng)" where
  "trainBatch_loop b [] totalLoss g net = Inr (totalLoss, net, g)"
| "trainBatch_loop b ((inputs, targets) # samples) totalLoss g net =
     bindF (trainSample b inputs targets g net) (\<lambda>(loss, net1, g1).
     trainBatch_loop b samples (totalLoss + loss) g1 net1)"

definition trainBatch ::
  "build \<Rightarrow> scalar list list \<Rightarrow> scalar list list \<Rightarrow> rng \<Rightarrow> Network
     \<Rightarrow> fault + (scalar \<times> Network \<times> rng)" where
  "trainBatch b inputBatch targetBatch g net =
     (if length inputBatch \<noteq> length targetBatch then Inr (0, net, g)
      else bindF (trainBatch_loop b (zip inputBatch targetBatch) 0 g net) (\<lambda>(totalLoss, net', g').
           Inr (totalLoss / real (length inputBatch), net', g')))"

subsection \<open>computeAccuracy, evaluate\<close>

definition sample_correct :: "scalar list \<Rightarrow> scalar list \<Rightarrow> fault + bool" where
  "sample_correct out tgt =
     (if length out = 1 then
        (let prediction = (if hd out > 1 / 2 then 1 else 0 :: scalar)
         in case tgt of
              [] \<Rightarrow> Inl UndefinedBehaviour
            | t # _ \<Rightarrow> Inr (\<bar>prediction - t\<bar> < 1 / 2))
      else Inr (max_element out = max_element tgt))"

definition computeAccuracy :: "scalar list list \<Rightarrow> scalar list list \<Rightarrow> fault + scalar" where
  "computeAccuracy outputs targets =
     (if outputs = [] \<or> targets = [] \<or> length outputs \<noteq> length targets then Inr 0
      else bindF (mapF (\<lambda>(out, tgt). sample_correct out tgt) (zip outputs targets)) (\<lambda>flags.
           Inr (real (length (filter (\<lambda>c. c) flags)) / real (length outputs))))"

definition evaluate ::
  "build \<Rightarrow> scalar list list \<Rightarrow> scalar list list \<Rightarrow> rng \<Rightarrow> Network
     \<Rightarrow> fault + ((scalar \<times> scalar) \<times> Network \<times> rng)" where
  "evaluate b inputData targetData g net =
     (if length inputData \<noteq> length targetData then Inr ((0, 0), net, g)
      else
        bindF (predictBatch b inputData g net) (\<lambda>(outputs, net', g').
        let totalLoss = foldl (\<lambda>s (out, t). s + lossFunction net' out t) 0 (zip outputs targetData);
            avgLoss = totalLoss / real (length outputs)
        in bindF (computeAccuracy outputs targetData) (\<lambda>accuracy.
           Inr ((avgLoss, accuracy), net', g'))))"

subsection \<open>shuffleData, createBatches\<close>

text \<open>
  \<^verbatim>\<open>std::shuffle\<close> is the exchange loop \<^verbatim>\<open>for (i = n - 1; i > 0; --i) swap(v[i], v[D(g, 0, i)])\<close>;
  a draw is brought into \<open>0..i\<close> by the remainder, so every stream of draws yields a
  permutation.
\<close>

definition swap :: "nat \<Rightarrow> nat \<Rightarrow> 'a list \<Rightarrow> 'a list" where
  "swap i j xs = xs[i := xs ! j, j := xs ! i]"

fun shuffle_loop :: "(nat \<Rightarrow> nat) \<Rightarrow> nat \<Rightarrow> nat \<Rightarrow> 'a list \<Rightarrow> 'a list" where
  "shuffle_loop draws k 0 xs = xs"
| "shuffle_loop draws k (Suc i) xs =
     shuffle_loop draws (Suc k) i (swap (Suc i) (draws k mod Suc (Suc i)) xs)"

definition std_shuffle :: "(nat \<Rightarrow> nat) \<Rightarrow> 'a list \<Rightarrow> 'a list" where
  "std_shuffle draws xs = shuffle_loop draws 0 (length xs - 1) xs"

definition shuffleData ::
  "scalar list list \<Rightarrow> scalar list list \<Rightarrow> rng \<Rightarrow> scalar list list \<times> scalar list list \<times> rng"
where
  "shuffleData inputs targets g =
     (if length inputs \<noteq> length targets then (inputs, targets, g)
      else
        (let indices = std_shuffle (uniform_index g) [0..<length inputs]
         in (map (\<lambda>i. inputs ! i) indices, map (\<lambda>i. targets ! i) indices,
             skip_indices (length inputs - 1) g)))"

type_synonym batch = "scalar list list \<times> scalar list list"

text \<open>
  No \<^verbatim>\<open>std::vector\<close> holds more than \<^verbatim>\<open>PTRDIFF_MAX\<close> elements (\<^verbatim>\<open>max_size()\<close> is
  \<^verbatim>\<open>PTRDIFF_MAX\<close> divided by the size of an element).
\<close>

definition vector_max_size :: nat where
  "vector_max_size = 2 ^ 63 - 1"

text \<open>
  The loop of \<^verbatim>\<open>createBatches\<close>. Every round appends one batch with
  \<^verbatim>\<open>batches.emplace_back\<close>, which throws when the vector cannot grow: \<^verbatim>\<open>std::length_error\<close>
  at \<^verbatim>\<open>max_size()\<close>, \<^verbatim>\<open>std::bad_alloc\<close> when the memory runs out before that.
  \<open>capacity\<close> is the number of batches the vector can take; \<^verbatim>\<open>createBatches\<close> runs the
  loop with the largest possible one. The counter is advanced by \<^verbatim>\<open>batchSize\<close>, which
  the caller chooses, and wraps around, so the recursion follows neither the data nor
  the counter: the loop is defined as a partial function, where \<open>None\<close> would be a
  call that does not return. Every call ends, since the vector cannot grow for ever
  (\<open>createBatches_loop_total\<close> below).
\<close>

partial_function (option) createBatches_loop ::
  "nat \<Rightarrow> scalar list list \<Rightarrow> scalar list list \<Rightarrow> nat \<Rightarrow> nat \<Rightarrow> batch list
     \<Rightarrow> (fault + batch list) option"
where
  "createBatches_loop capacity inputs targets batchSize i batches =
     (if i < length inputs then
        (let endIdx = min (size_t_add i batchSize) (length inputs) in
         case vector_range inputs i endIdx of
           Inl e \<Rightarrow> Some (Inl e)
         | Inr batchInputs \<Rightarrow>
             (case vector_range targets i endIdx of
                Inl e \<Rightarrow> Some (Inl e)
              | Inr batchTargets \<Rightarrow>
                  if length batches < capacity then
                    createBatches_loop capacity inputs targets batchSize (size_t_add i batchSize)
                      (batches @ [(batchInputs, batchTargets)])
                  else Some (Inl AllocationFailure)))
      else Some (Inr batches))"

definition createBatches ::
  "scalar list list \<Rightarrow> scalar list list \<Rightarrow> nat \<Rightarrow> (fault + batch list) option" where
  "createBatches inputs targets batchSize =
     createBatches_loop vector_max_size inputs targets batchSize 0 []"

subsection \<open>train\<close>

record TrainingHistory =
  trainLoss :: "scalar list"
  trainAccuracy :: "scalar list"
  valLoss :: "scalar list"
  valAccuracy :: "scalar list"

record train_state =
  ts_inputs :: "scalar list list"
  ts_targets :: "scalar list list"
  ts_history :: TrainingHistory
  ts_net :: Network
  ts_rng :: rng

fun train_batches ::
  "build \<Rightarrow> batch list \<Rightarrow> scalar \<Rightarrow> rng \<Rightarrow> Network \<Rightarrow> fault + (scalar \<times> Network \<times> rng)" where
  "train_batches b [] epochLoss g net = Inr (epochLoss, net, g)"
| "train_batches b (batch # batches) epochLoss g net =
     bindF (trainBatch b (fst batch) (snd batch) g net) (\<lambda>(loss, net1, g1).
     train_batches b batches (epochLoss + loss) g1 net1)"

text \<open>
  The body of the epoch loop. The progress callback is a \<^verbatim>\<open>std::function\<close> returning
  \<^verbatim>\<open>void\<close>, run on the training thread; its only effect on the network that the model
  keeps is a call of \<^verbatim>\<open>stopTraining()\<close>, which is its result here.
\<close>

definition train_epoch ::
  "build \<Rightarrow> nat \<Rightarrow> nat \<Rightarrow> scalar list list option \<Rightarrow> scalar list list option
     \<Rightarrow> (nat \<Rightarrow> scalar \<Rightarrow> scalar \<Rightarrow> bool) option \<Rightarrow> nat \<Rightarrow> train_state
     \<Rightarrow> (fault + train_state) option" where
  "train_epoch b epochs batchSize validationInputs validationTargets progressCallback epoch st =
     (case shuffleData (ts_inputs st) (ts_targets st) (ts_rng st) of (inputs, targets, g1) \<Rightarrow>
      case createBatches inputs targets batchSize of
        None \<Rightarrow> None
      | Some (Inl e) \<Rightarrow> Some (Inl e)
      | Some (Inr batches) \<Rightarrow> Some (
          bindF (train_batches b batches 0 g1 (ts_net st)) (\<lambda>(total, net1, g2).
          let epochLoss = total / real (length batches) in
          bindF (predictBatch b inputs g2 net1) (\<lambda>(trainOutputs, net2, g3).
          bindF (computeAccuracy trainOutputs targets) (\<lambda>trainAcc.
          let history1 = (ts_history st)
                \<lparr>trainLoss := trainLoss (ts_history st) @ [epochLoss],
                 trainAccuracy := trainAccuracy (ts_history st) @ [trainAcc]\<rparr> in
          bindF (case (validationInputs, validationTargets) of
                   (Some vi, Some vt) \<Rightarrow>
                     bindF (evaluate b vi vt g3 net2) (\<lambda>((vLoss, vAcc), net3, g4).
                     Inr (history1\<lparr>valLoss := valLoss history1 @ [vLoss],
                                   valAccuracy := valAccuracy history1 @ [vAcc]\<rparr>, net3, g4))
                 | _ \<Rightarrow> Inr (history1, net2, g3)) (\<lambda>(history2, net3, g4).
          let net4 = net3\<lparr>trainingProgress := real (epoch + 1) / real epochs\<rparr>;
              net5 = (case progressCallback of
                        None \<Rightarrow> net4
                      | Some callback \<Rightarrow>
                          if callback epoch epochLoss trainAcc then stopTraining net4 else net4)
          in Inr \<lparr> ts_inputs = inputs, ts_targets = targets, ts_history = history2,
                   ts_net = net5, ts_rng = g4 \<rparr>))))))"

text \<open>
  \<^verbatim>\<open>shouldStop_\<close> is an atomic flag that another thread may set through
  \<^verbatim>\<open>stopTraining()\<close> at any moment. \<^verbatim>\<open>train\<close> writes it once, when it clears it on entry,
  and reads it in the loop test only, so all that matters of such a call is the
  interval between two of these accesses in which it lands.
\<close>

datatype stop_point =
    BeforeClear
  | BeforeTest nat

text \<open>
  \<open>BeforeClear\<close>: after \<^verbatim>\<open>isTraining_.store(true)\<close> and before \<^verbatim>\<open>shouldStop_.store(false)\<close>,
  the first two statements of \<^verbatim>\<open>train\<close>. \<open>BeforeTest k\<close>: after the access before it (the
  clearing store for \<open>k = 0\<close>, loop test \<open>k - 1\<close> otherwise, so while epoch \<open>k - 1\<close> is
  running) and not later than loop test \<open>k\<close>, the one that decides whether epoch \<open>k\<close>
  begins. A schedule says for each interval whether a call lands in it.

  The epoch loop \<^verbatim>\<open>for (epoch = 0; epoch < epochs && !shouldStop_.load(); ++epoch)\<close>;
  \<open>asyncStop k\<close> here is the schedule at \<open>BeforeTest k\<close>.
\<close>

function train_loop ::
  "build \<Rightarrow> (nat \<Rightarrow> bool) \<Rightarrow> nat \<Rightarrow> nat \<Rightarrow> scalar list list option \<Rightarrow> scalar list list option
     \<Rightarrow> (nat \<Rightarrow> scalar \<Rightarrow> scalar \<Rightarrow> bool) option \<Rightarrow> nat \<Rightarrow> train_state
     \<Rightarrow> (fault + train_state) option" where
  "train_loop b asyncStop epochs batchSize validationInputs validationTargets progressCallback
       epoch st =
     (let net = (if asyncStop epoch then stopTraining (ts_net st) else ts_net st) in
      if epoch < epochs \<and> \<not> shouldStop net then
        (case train_epoch b epochs batchSize validationInputs validationTargets
                progressCallback epoch (st\<lparr>ts_net := net\<rparr>) of
           None \<Rightarrow> None
         | Some (Inl e) \<Rightarrow> Some (Inl e)
         | Some (Inr st') \<Rightarrow>
             train_loop b asyncStop epochs batchSize validationInputs validationTargets
               progressCallback (Suc epoch) st')
      else Some (Inr (st\<lparr>ts_net := net\<rparr>)))"
  by pat_completeness auto
termination
  by (relation "measure (\<lambda>(b, asyncStop, epochs, batchSize, vi, vt, cb, epoch, st). epochs - epoch)")
     auto

declare train_loop.simps [simp del]

text \<open>
  \<^verbatim>\<open>train\<close>. Its first two statements are \<^verbatim>\<open>isTraining_.store(true)\<close> and
  \<^verbatim>\<open>shouldStop_.store(false)\<close>: a \<^verbatim>\<open>stopTraining()\<close> that lands between them sets a flag
  that the second store clears again. Its last statements, reached when the loop is left
  by its test, store \<^verbatim>\<open>false\<close> and 1 in \<^verbatim>\<open>isTraining_\<close> and \<^verbatim>\<open>trainingProgress_\<close>.
\<close>

definition train ::
  "build \<Rightarrow> (stop_point \<Rightarrow> bool) \<Rightarrow> scalar list list \<Rightarrow> scalar list list \<Rightarrow> nat \<Rightarrow> nat
     \<Rightarrow> scalar list list option \<Rightarrow> scalar list list option
     \<Rightarrow> (nat \<Rightarrow> scalar \<Rightarrow> scalar \<Rightarrow> bool) option \<Rightarrow> rng \<Rightarrow> Network
     \<Rightarrow> (fault + (TrainingHistory \<times> Network \<times> rng)) option" where
  "train b asyncStop inputData targetData epochs batchSize validationInputs validationTargets
       progressCallback g net =
     (let net1 = net\<lparr>isTraining := True\<rparr>;
          net2 = (if asyncStop BeforeClear then stopTraining net1 else net1);
          net3 = net2\<lparr>shouldStop := False\<rparr>
      in case train_loop b (\<lambda>k. asyncStop (BeforeTest k)) epochs batchSize validationInputs
                validationTargets progressCallback 0
                \<lparr> ts_inputs = inputData, ts_targets = targetData,
                  ts_history = \<lparr> trainLoss = [], trainAccuracy = [], valLoss = [],
                                 valAccuracy = [] \<rparr>,
                  ts_net = net3, ts_rng = g \<rparr> of
           None \<Rightarrow> None
         | Some (Inl e) \<Rightarrow> Some (Inl e)
         | Some (Inr st) \<Rightarrow>
             Some (Inr (ts_history st,
                        (ts_net st)\<lparr>isTraining := False, trainingProgress := 1\<rparr>, ts_rng st)))"

subsection \<open>toJson, fromJson\<close>

definition Network_toJson :: "Network \<Rightarrow> json" where
  "Network_toJson net = Object
     [(''name'', String (nn_name net)),
      (''learning_rate'', NumberFloat (learningRate net)),
      (''loss_type'', NumberInteger (sint (lossType net))),
      (''optimizer_type'', NumberInteger (sint (optimizerType net))),
      (''layers'', Array (map Layer_toJson (layers net)))]"

definition Network_fromJson :: "json \<Rightarrow> Network \<Rightarrow> fault + Network" where
  "Network_fromJson j net0 =
     bindF (load j ''name'' get_string (\<lambda>v n. n\<lparr>nn_name := v\<rparr>) net0) (\<lambda>net1.
     bindF (load j ''learning_rate'' get_scalar (\<lambda>v n. n\<lparr>learningRate := v\<rparr>) net1) (\<lambda>net2.
     bindF (load j ''loss_type'' get_int (\<lambda>v n. n\<lparr>lossType := v\<rparr>) net2) (\<lambda>net3.
     bindF (load j ''optimizer_type'' get_int (\<lambda>v n. n\<lparr>optimizerType := v\<rparr>) net3) (\<lambda>net4.
     if contains j ''layers'' \<and> is_array (at_key j ''layers'') then
       bindF (mapF (\<lambda>layerJson. Layer_fromJson layerJson (Layer_ctor 1 ActivationType_ReLU []))
                (elements (at_key j ''layers''))) (\<lambda>ls.
       Inr (net4\<lparr>layers := ls\<rparr>))
     else Inr net4))))"

section \<open>Notions used in the statements\<close>

text \<open>
  Batch number \<open>k\<close> of a data set cut into slices of \<open>B\<close> samples, and the number of
  such slices.
\<close>

definition nth_batch :: "scalar list list \<Rightarrow> scalar list list \<Rightarrow> nat \<Rightarrow> nat \<Rightarrow> batch" where
  "nth_batch inputs targets B k = (take B (drop (k * B) inputs), take B (drop (k * B) targets))"

definition batch_count :: "nat \<Rightarrow> nat \<Rightarrow> nat" where
  "batch_count N B = (N + B - 1) div B"



text \<open>
  The invariant of the data model on the layers after the first: every layer has a
  unit, every unit has as many weights as the layer before has units, and the dropout
  mask has one entry per unit. \<open>prevSize\<close> is the size of the layer before.
\<close>

fun connected :: "nat \<Rightarrow> Layer list \<Rightarrow> bool" where
  "connected prevSize [] = True"
| "connected prevSize (l # ls) =
     (neurons l \<noteq> []
      \<and> (\<forall>n \<in> set (neurons l). length (n_inputWeights n) = prevSize)
      \<and> length (dropoutMask l) = length (neurons l)
      \<and> connected (length (neurons l)) ls)"

section \<open>Example data\<close>

text \<open>
  A network of one input unit and one linear output unit with weight \<open>1/2\<close>, random
  streams that always draw 0, three schedules of stop requests and a progress callback
  that asks to stop once the training loss is below 1 / 10.
\<close>

definition no_stop :: "stop_point \<Rightarrow> bool" where
  "no_stop p = False"




definition zero_real_draws :: "nat \<Rightarrow> scalar" where
  "zero_real_draws k = 0"

definition zero_index_draws :: "nat \<Rightarrow> nat" where
  "zero_index_draws k = 0"

definition zero_rng :: rng where
  "zero_rng = \<lparr> uniform_real = zero_real_draws, uniform_index = zero_index_draws \<rparr>"

definition demo_network :: Network where
  "demo_network =
     \<lparr> nn_name = ''demo'',
       layers =
         [Layer_ctor 1 ActivationType_None ''input'',
          (Layer_ctor 1 ActivationType_None ''output'')
            \<lparr>neurons := [(Neuron_ctor 0)\<lparr>n_inputWeights := [1 / 2]\<rparr>]\<rparr>],
       learningRate = 1 / 10,
       lossType = LossType_MeanSquaredError,
       optimizerType = OptimizerType_SGD,
       isTraining = False, shouldStop = False, trainingProgress = 0 \<rparr>"

text \<open>A trainable layer of one unit with two weights, a bias and a delta.\<close>

definition demo_layer :: Layer where
  "demo_layer =
     (Layer_ctor 1 ActivationType_None ''output'')
       \<lparr>neurons := [(Neuron_ctor 0)\<lparr>n_inputWeights := [1 / 2, 2], n_bias := 1, n_delta := 3\<rparr>]\<rparr>"

text \<open>
  A network whose output unit has no weights, as \<^verbatim>\<open>fromJson\<close> builds it from a document
  whose unit has an empty \<^verbatim>\<open>input_weights\<close> array.
\<close>

definition broken_network :: Network where
  "broken_network =
     demo_network\<lparr>layers :=
       [Layer_ctor 1 ActivationType_None ''input'',
        Layer_ctor 1 ActivationType_None ''output'']\<rparr>"

section \<open>Further notions used in the statements and proofs\<close>

text \<open>The weight vector and the bias of every unit of every layer.\<close>

definition parameters :: "Network \<Rightarrow> (scalar list \<times> scalar) list list" where
  "parameters net = map (\<lambda>l. map (\<lambda>n. (n_inputWeights n, n_bias n)) (neurons l)) (layers net)"

text \<open>The body of the loop over the units in \<^verbatim>\<open>Layer::forward\<close>.\<close>

definition unit_forward :: "build \<Rightarrow> scalar list \<Rightarrow> Neuron \<Rightarrow> fault + Neuron" where
  "unit_forward b inputs neuron =
     bindF (NNV_ASSERT b (length (n_inputWeights neuron) = length inputs)) (\<lambda>_.
     bindF (weightedSum 0 inputs (n_inputWeights neuron)) (\<lambda>s.
     Inr (neuron\<lparr>n_weightedInput := s\<rparr>)))"

text \<open>A layer on which \<^verbatim>\<open>Layer::forward\<close> with these inputs changes nothing.\<close>

definition forwarded :: "build \<Rightarrow> scalar list \<Rightarrow> Layer \<Rightarrow> bool" where
  "forwarded b inputs l =
     (NNV_ASSERT b (neurons l \<noteq> []) = Inr ()
      \<and> list_all (\<lambda>n. unit_forward b inputs n = Inr n) (neurons l))"

text \<open>Assigning activations to the units of a layer, one value per unit.\<close>

definition set_acts :: "Neuron list \<Rightarrow> scalar list \<Rightarrow> Neuron list" where
  "set_acts ns as = map2 (\<lambda>n a. n\<lparr>n_activation := a\<rparr>) ns as"

text \<open>\<^verbatim>\<open>std::round\<close>: to the nearest integer, halfway cases away from zero.\<close>

definition std_round :: "scalar \<Rightarrow> int" where
  "std_round x = (if x < 0 then - \<lfloor>- x + 1 / 2\<rfloor> else \<lfloor>x + 1 / 2\<rfloor>)"

text \<open>
  The accuracy rule for a single-output sample in the words of the specification:
  correct if \<open>|round(output) - target| < 0.5\<close>.
\<close>

definition spec_single_correct :: "scalar \<Rightarrow> scalar \<Rightarrow> bool" where
  "spec_single_correct out t = (\<bar>real_of_int (std_round out) - t\<bar> < 1 / 2)"

text \<open>
  The rule the code applies: a single output is thresholded at \<open>0.5\<close> (strictly above
  gives 1, otherwise 0) and compared with the first target entry; any other output
  vector is compared with the target by the index of the first largest entry.
\<close>

definition threshold_correct :: "scalar list \<Rightarrow> scalar list \<Rightarrow> bool" where
  "threshold_correct out tgt =
     (if length out = 1
      then \<bar>(if hd out > 1 / 2 then 1 else 0) - hd tgt\<bar> < 1 / 2
      else max_element out = max_element tgt)"

section \<open>Batching\<close>

lemma batch_count_below: "0 < B \<Longrightarrow> k < batch_count N B \<Longrightarrow> k * B < N"
proof -
  assume B: "0 < B" and k: "k < batch_count N B"
  have "batch_count N B * B \<le> N + B - 1"
    unfolding batch_count_def by (rule div_times_less_eq_dividend)
  moreover have "(k + 1) * B \<le> batch_count N B * B"
    using k by (intro mult_le_mono1) simp
  ultimately have "k * B + B \<le> N + B - 1" by simp
  then show ?thesis using B by linarith
qed

lemma batch_count_above: "0 < B \<Longrightarrow> N \<le> batch_count N B * B"
proof -
  assume B: "0 < B"
  have "(N + B - 1) mod B < B" using B by simp
  moreover have "(N + B - 1) div B * B + (N + B - 1) mod B = N + B - 1"
    by simp
  ultimately show ?thesis unfolding batch_count_def using B by linarith
qed

lemma size_t_add_step:
  assumes "k * B < N" "N < 2 ^ 63" "B < 2 ^ 64"
  shows "size_t_add (k * B) B = Suc k * B"
proof (cases k)
  case 0
  then show ?thesis using assms by (simp add: size_t_add_def)
next
  case (Suc j)
  then have "k * B = B + j * B" by simp
  then have "B \<le> k * B" by linarith
  moreover have "(2::nat) ^ 64 = 2 * 2 ^ 63" by simp
  ultimately have "k * B + B < 2 ^ 64" using assms by linarith
  then show ?thesis by (simp add: size_t_add_def)
qed

lemma vector_range_batch:
  assumes "i < length v"
  shows "vector_range v i (min (i + B) (length v)) = Inr (take B (drop i v))"
proof -
  have "take (min (i + B) (length v) - i) (drop i v) = take B (drop i v)"
    using assms by (cases "i + B \<le> length v") (simp_all add: min_def)
  then show ?thesis using assms by (simp add: vector_range_def)
qed

lemma createBatches_loop_closed:
  assumes N: "length inputs < 2 ^ 63" and B: "0 < B" "B < 2 ^ 64"
    and T: "length targets = length inputs"
    and C: "batch_count (length inputs) B \<le> capacity"
  shows "k \<le> batch_count (length inputs) B \<Longrightarrow>
         createBatches_loop capacity inputs targets B (k * B)
           (map (nth_batch inputs targets B) [0..<k])
         = Some (Inr (map (nth_batch inputs targets B) [0..<batch_count (length inputs) B]))"
proof (induction "batch_count (length inputs) B - k" arbitrary: k)
  case 0
  then have k: "k = batch_count (length inputs) B" by simp
  then have "\<not> k * B < length inputs" using batch_count_above [OF B(1), of "length inputs"] by simp
  then show ?case using k by (subst createBatches_loop.simps) simp
next
  case (Suc d)
  then have k: "k < batch_count (length inputs) B" by simp
  then have lt: "k * B < length inputs" using batch_count_below B(1) by blast
  have step: "size_t_add (k * B) B = Suc k * B"
    using size_t_add_step [OF lt N B(2)] .
  have step': "k * B + B = Suc k * B" by simp
  have ri: "vector_range inputs (k * B) (min (Suc k * B) (length inputs)) = Inr (take B (drop (k * B) inputs))"
    using vector_range_batch [OF lt, of B] unfolding step' .
  have lt': "k * B < length targets" using lt T by simp
  have rt: "vector_range targets (k * B) (min (Suc k * B) (length inputs)) = Inr (take B (drop (k * B) targets))"
    using vector_range_batch [OF lt', of B] unfolding step' T .
  have room: "k < capacity" using k C by simp
  have IH: "createBatches_loop capacity inputs targets B (Suc k * B)
              (map (nth_batch inputs targets B) [0..<Suc k])
         = Some (Inr (map (nth_batch inputs targets B) [0..<batch_count (length inputs) B]))"
    using Suc.hyps(1) [of "Suc k"] Suc.hyps(2) k by simp
  show ?case
    apply (subst createBatches_loop.simps)
    using lt room IH apply (simp add: step ri rt Let_def nth_batch_def del: mult_Suc)
    done
qed

lemma concat_take_chunks:
  "concat (map (\<lambda>k. take B (drop (k * B) xs)) [0..<K]) = take (K * B) xs"
proof (induction K)
  case 0
  show ?case by simp
next
  case (Suc K)
  have "take (K * B) xs @ take B (drop (K * B) xs) = take (K * B + B) xs"
    by (simp add: take_add)
  then show ?case using Suc by (simp add: add.commute)
qed


lemma batch_count_le: "0 < B \<Longrightarrow> batch_count N B \<le> N"
proof (cases N)
  case 0
  assume "0 < B"
  then show ?thesis using 0 by (simp add: batch_count_def)
next
  case (Suc n)
  assume B: "0 < B"
  have "n \<le> n * B" using B by simp
  then have "N + B - 1 \<le> N * B" using Suc by simp
  then have "(N + B - 1) div B \<le> (N * B) div B" by (rule div_le_mono)
  then show ?thesis using B by (simp add: batch_count_def)
qed



text \<open>
  With batch size 0 the counter stays at 0: every round appends an empty batch, until
  the vector cannot take another one.
\<close>

lemma createBatches_loop_zero:
  assumes "inputs \<noteq> []"
  shows "createBatches_loop capacity inputs targets 0 0 acc = Some (Inl AllocationFailure)"
proof (induction "capacity - length acc" arbitrary: acc)
  case 0
  then have "\<not> length acc < capacity" by simp
  then show ?case using assms
    by (subst createBatches_loop.simps) (simp add: size_t_add_def vector_range_def)
next
  case (Suc d)
  then have room: "length acc < capacity" by simp
  have IH: "createBatches_loop capacity inputs targets 0 0 (acc @ [([], [])])
            = Some (Inl AllocationFailure)"
    using Suc.hyps(1) [of "acc @ [([], [])]"] Suc.hyps(2) by simp
  show ?case
    apply (subst createBatches_loop.simps)
    using assms room IH apply (simp add: size_t_add_def vector_range_def)
    done
qed

lemma createBatches_zero:
  "inputs \<noteq> [] \<Longrightarrow> createBatches inputs targets 0 = Some (Inl AllocationFailure)"
  unfolding createBatches_def by (rule createBatches_loop_zero)

lemma createBatches_closed:
  assumes N: "length inputs < 2 ^ 63" and B: "0 < B" "B < 2 ^ 64"
    and T: "length targets = length inputs"
  shows "createBatches inputs targets B
         = Some (Inr (map (nth_batch inputs targets B) [0..<batch_count (length inputs) B]))"
proof -
  have "batch_count (length inputs) B \<le> length inputs" using B(1) by (rule batch_count_le)
  then have C: "batch_count (length inputs) B \<le> vector_max_size"
    using N by (simp add: vector_max_size_def)
  show ?thesis
    using createBatches_loop_closed [OF N B T C, of 0] by (simp add: createBatches_def)
qed

lemma length_swap: "length (swap i j xs) = length xs"
  by (simp add: swap_def)

lemma length_shuffle_loop: "length (shuffle_loop draws k i xs) = length xs"
  by (induction draws k i xs rule: shuffle_loop.induct) (simp_all add: length_swap)

lemma length_std_shuffle: "length (std_shuffle draws xs) = length xs"
  by (simp add: std_shuffle_def length_shuffle_loop)

lemma shuffleData_length:
  "shuffleData inputs targets g = (inputs', targets', g') \<Longrightarrow> length inputs' = length inputs"
  by (auto simp: shuffleData_def Let_def length_std_shuffle split: if_splits)

lemma shuffleData_nonempty:
  "inputs \<noteq> [] \<Longrightarrow> shuffleData inputs targets g = (inputs', targets', g') \<Longrightarrow> inputs' \<noteq> []"
  using shuffleData_length [of inputs targets g inputs' targets' g'] by auto

lemma train_epoch_zero:
  "ts_inputs st \<noteq> [] \<Longrightarrow>
   train_epoch b epochs 0 vi vt cb epoch st = Some (Inl AllocationFailure)"
proof -
  assume ne: "ts_inputs st \<noteq> []"
  obtain inputs' targets' g' where
    sh: "shuffleData (ts_inputs st) (ts_targets st) (ts_rng st) = (inputs', targets', g')"
    by (cases "shuffleData (ts_inputs st) (ts_targets st) (ts_rng st)") auto
  then have "inputs' \<noteq> []" using shuffleData_nonempty [OF ne] by blast
  then have "createBatches inputs' targets' 0 = Some (Inl AllocationFailure)"
    by (rule createBatches_zero)
  then show ?thesis by (simp add: train_epoch_def sh)
qed

lemma ceiling_batch_count:
  assumes B: "0 < B" shows "nat \<lceil>real N / real B\<rceil> = batch_count N B"
proof -
  let ?q = "batch_count N B"
  have up: "N \<le> ?q * B" using batch_count_above [OF B] .
  have "?q * B < N + B"
  proof (cases ?q)
    case 0
    then show ?thesis using B by simp
  next
    case (Suc j)
    then have "j * B < N" using batch_count_below [OF B, of j N] by simp
    then show ?thesis using Suc by simp
  qed
  then have "real (?q * B) < real (N + B)" by (simp only: of_nat_less_iff)
  then have lo: "(real ?q - 1) * real B < real N" by (simp add: algebra_simps)
  have "real N \<le> real (?q * B)" using up by (simp only: of_nat_le_iff)
  then have hi: "real N \<le> real ?q * real B" by simp
  have rB: "0 < real B" using B by simp
  have "\<lceil>real N / real B\<rceil> = int ?q"
  proof (rule ceiling_unique)
    show "real_of_int (int ?q) - 1 < real N / real B"
      using lo rB by (simp add: pos_less_divide_eq)
    show "real N / real B \<le> real_of_int (int ?q)"
      using hi rB by (simp add: pos_divide_le_eq)
  qed
  then show ?thesis by simp
qed


lemma length_nth_batch:
  "length (fst (nth_batch inputs targets B k)) = min B (length inputs - k * B)"
  by (simp add: nth_batch_def min.commute)

text \<open>
  Claim C5. For \<open>N \<ge> 1\<close> samples (paired inputs and targets) and a batch size
  \<open>B \<ge> 1\<close>, \<^verbatim>\<open>createBatches\<close> returns exactly \<open>\<lceil>N / B\<rceil>\<close> batches, each of at most
  \<open>B\<close> samples and all but possibly the last of exactly \<open>B\<close>, whose concatenation in
  order is the sample list. The bounds \<open>N < 2 ^ 63\<close> and \<open>B < 2 ^ 64\<close> are those of
  \<^verbatim>\<open>std::vector::max_size\<close> and \<^verbatim>\<open>std::size_t\<close>; under them the counter never wraps and
  the vector of batches stays within its capacity.
\<close>

theorem createBatches_covers:
  assumes N: "inputs \<noteq> []" "length inputs < 2 ^ 63" and B: "0 < B" "B < 2 ^ 64"
    and T: "length targets = length inputs"
  shows "\<exists>batches. createBatches inputs targets B = Some (Inr batches)
           \<and> length batches = nat \<lceil>real (length inputs) / real B\<rceil>
           \<and> (\<forall>bt \<in> set batches. length (fst bt) \<le> B \<and> length (snd bt) = length (fst bt))
           \<and> (\<forall>j. Suc j < length batches \<longrightarrow> length (fst (batches ! j)) = B)
           \<and> concat (map fst batches) = inputs
           \<and> concat (map snd batches) = targets"
proof -
  let ?K = "batch_count (length inputs) B"
  let ?bs = "map (nth_batch inputs targets B) [0..<?K]"
  have run: "createBatches inputs targets B = Some (Inr ?bs)"
    using N(2) B T by (rule createBatches_closed)
  have len: "length ?bs = nat \<lceil>real (length inputs) / real B\<rceil>"
    by (simp add: ceiling_batch_count [OF B(1)])
  have sizes: "\<forall>bt \<in> set ?bs. length (fst bt) \<le> B \<and> length (snd bt) = length (fst bt)"
    by (auto simp: nth_batch_def T)
  have full: "\<forall>j. Suc j < length ?bs \<longrightarrow> length (fst (?bs ! j)) = B"
  proof (intro allI impI)
    fix j assume j: "Suc j < length ?bs"
    then have "Suc j < ?K" by simp
    then have "Suc j * B < length inputs" by (rule batch_count_below [OF B(1)])
    then have "j * B + B \<le> length inputs" by simp
    then show "length (fst (?bs ! j)) = B" using j by (simp add: nth_batch_def)
  qed
  have cover: "length inputs \<le> ?K * B" using batch_count_above [OF B(1)] .
  have ci: "concat (map fst ?bs) = inputs"
    using concat_take_chunks [of B inputs ?K] cover by (simp add: nth_batch_def comp_def)
  have ct: "concat (map snd ?bs) = targets"
    using concat_take_chunks [of B targets ?K] cover T by (simp add: nth_batch_def comp_def)
  show ?thesis using run len sizes full ci ct by blast
qed

theorem createBatches_covers_witness:
  "\<exists>batches. createBatches [[1], [2], [3]] [[0], [1], [0]] 2 = Some (Inr batches)
     \<and> length batches = 2
     \<and> (\<forall>j. Suc j < length batches \<longrightarrow> length (fst (batches ! j)) = 2)
     \<and> concat (map fst batches) = [[1], [2], [3]]
     \<and> concat (map snd batches) = [[0], [1], [0]]"
proof -
  have "nat \<lceil>real (length [[1::real], [2], [3]]) / real (2::nat)\<rceil> = 2" by simp
  then show ?thesis
    using createBatches_covers [of "[[1], [2], [3]]" 2 "[[0], [1], [0]]"] by auto
qed

section \<open>The training loop\<close>








subsection \<open>Runs of the example\<close>







subsection \<open>Cancellation\<close>






subsection \<open>Batch size 0\<close>

lemma train_zero_batch:
  assumes "inputData \<noteq> []" "0 < epochs" "\<not> asyncStop (BeforeTest 0)"
  shows "train b asyncStop inputData targetData epochs 0 vi vt cb g net
         = Some (Inl AllocationFailure)"
  unfolding train_def
  apply (subst train_loop.simps)
  using assms apply (simp add: train_epoch_zero Let_def)
  done

lemma train_zero_epochs:
  "train Release no_stop [[1]] [[1]] 0 0 None None None zero_rng demo_network
   = Some (Inr (\<lparr> trainLoss = [], trainAccuracy = [], valLoss = [], valAccuracy = [] \<rparr>,
               demo_network\<lparr>isTraining := False, shouldStop := False, trainingProgress := 1\<rparr>,
               zero_rng))"
  unfolding train_def
  apply (subst train_loop.simps)
  apply (simp add: no_stop_def)
  done

text \<open>
  Claim C10, as amended. For every batch size \<open>B \<ge> 1\<close> (within \<^verbatim>\<open>std::size_t\<close>, on
  paired samples within \<^verbatim>\<open>max_size\<close>) \<^verbatim>\<open>createBatches\<close> returns, after as many rounds
  as it returns batches. For batch size 0 and at least one sample its loop index never
  advances, so it never returns a list of batches; but it does not run forever
  either: every round appends an empty batch, and the call ends in the exception of
  \<^verbatim>\<open>emplace_back\<close> when the vector cannot grow any more, whatever the number of batches
  it can take. A \<^verbatim>\<open>train\<close> call with batch size 0 on a non-empty data set ends in that
  exception if it begins its first epoch, that is if at least one epoch is requested
  and no stop request lands between the clearing of the flag and the first loop test.
\<close>

theorem createBatches_termination:
  "(length inputs < 2 ^ 63 \<and> 0 < B \<and> B < 2 ^ 64 \<and> length targets = length inputs \<longrightarrow>
      (\<exists>batches. createBatches inputs targets B = Some (Inr batches)
                \<and> length batches = batch_count (length inputs) B))
   \<and> (inputs \<noteq> [] \<longrightarrow>
        createBatches_loop capacity inputs targets 0 0 [] = Some (Inl AllocationFailure)
      \<and> createBatches inputs targets 0 = Some (Inl AllocationFailure))
   \<and> (inputData \<noteq> [] \<and> 0 < epochs \<and> \<not> asyncStop (BeforeTest 0) \<longrightarrow>
        train b asyncStop inputData targetData epochs 0 vi vt cb g net
        = Some (Inl AllocationFailure))"
proof (intro conjI impI)
  assume "length inputs < 2 ^ 63 \<and> 0 < B \<and> B < 2 ^ 64 \<and> length targets = length inputs"
  then show "\<exists>batches. createBatches inputs targets B = Some (Inr batches)
                \<and> length batches = batch_count (length inputs) B"
    using createBatches_closed [of inputs B targets] by simp
next
  assume "inputs \<noteq> []"
  then show "createBatches_loop capacity inputs targets 0 0 [] = Some (Inl AllocationFailure)"
    by (rule createBatches_loop_zero)
next
  assume "inputs \<noteq> []"
  then show "createBatches inputs targets 0 = Some (Inl AllocationFailure)"
    by (rule createBatches_zero)
next
  assume "inputData \<noteq> [] \<and> 0 < epochs \<and> \<not> asyncStop (BeforeTest 0)"
  then show "train b asyncStop inputData targetData epochs 0 vi vt cb g net
             = Some (Inl AllocationFailure)"
    using train_zero_batch by blast
qed

theorem createBatches_termination_witness:
  "(\<exists>batches. createBatches [[1], [2], [3]] [[0], [1], [0]] 2 = Some (Inr batches)
             \<and> length batches = 2)
   \<and> createBatches_loop 5 [[1], [2], [3]] [[0], [1], [0]] 0 0 [] = Some (Inl AllocationFailure)
   \<and> createBatches [[1], [2], [3]] [[0], [1], [0]] 0 = Some (Inl AllocationFailure)
   \<and> train Debug no_stop [[1]] [[1]] 3 0 None None None zero_rng demo_network
     = Some (Inl AllocationFailure)"
proof -
  have "batch_count (length [[1::real], [2], [3]]) 2 = 2" by (simp add: batch_count_def)
  then show ?thesis
    using createBatches_termination [where inputs = "[[1], [2], [3]]" and B = 2
            and targets = "[[0], [1], [0]]" and capacity = 5 and inputData = "[[1]]"
            and epochs = 3 and asyncStop = no_stop and b = Debug and targetData = "[[1]]"
            and vi = None and vt = None and cb = None and g = zero_rng and net = demo_network]
    by (simp add: no_stop_def)
qed

text \<open>
  The claim as stated (\<^verbatim>\<open>createBatches\<close> with batch size 0, and hence any \<^verbatim>\<open>train\<close>
  call with batch size 0 on a non-empty data set, does not terminate) fails twice.
  \<^verbatim>\<open>createBatches\<close> on one sample ends, in the exception of the vector that cannot grow,
  and so does a \<^verbatim>\<open>train\<close> call of three epochs on it; and a \<^verbatim>\<open>train\<close> call that
  requests no epoch returns, since the loop body, and with it \<^verbatim>\<open>createBatches\<close>, is
  never entered.
\<close>

theorem createBatches_zero_counterexample:
  "createBatches [[1]] [[1]] 0 = Some (Inl AllocationFailure)
   \<and> train Release no_stop [[1]] [[1]] 3 0 None None None zero_rng demo_network
     = Some (Inl AllocationFailure)
   \<and> train Release no_stop [[1]] [[1]] 0 0 None None None zero_rng demo_network
     = Some (Inr (\<lparr> trainLoss = [], trainAccuracy = [], valLoss = [], valAccuracy = [] \<rparr>,
                 demo_network\<lparr>isTraining := False, shouldStop := False, trainingProgress := 1\<rparr>,
                 zero_rng))"
proof (intro conjI)
  show "createBatches [[1]] [[1]] 0 = Some (Inl AllocationFailure)"
    by (rule createBatches_zero) simp
  show "train Release no_stop [[1]] [[1]] 3 0 None None None zero_rng demo_network
        = Some (Inl AllocationFailure)"
    by (rule train_zero_batch) (simp_all add: no_stop_def)
  show "train Release no_stop [[1]] [[1]] 0 0 None None None zero_rng demo_network
        = Some (Inr (\<lparr> trainLoss = [], trainAccuracy = [], valLoss = [], valAccuracy = [] \<rparr>,
                 demo_network\<lparr>isTraining := False, shouldStop := False, trainingProgress := 1\<rparr>,
                 zero_rng))"
    by (rule train_zero_epochs)
qed

section \<open>Faults and the list combinators\<close>

lemma bindF_Inr [simp]: "bindF (Inr x) f = f x"
  by (simp add: bindF_def)

lemma bindF_Inl [simp]: "bindF (Inl e) f = Inl e"
  by (simp add: bindF_def)

lemma mapF_Inr_map: "(\<forall>x \<in> set xs. f x = Inr (g x)) \<Longrightarrow> mapF f xs = Inr (map g xs)"
  by (induction xs) simp_all

lemma mapF_length: "mapF f xs = Inr ys \<Longrightarrow> length ys = length xs"
  by (induction xs arbitrary: ys) (auto simp: bindF_def split: sum.splits)

lemma mapF_Inl:
  assumes "x \<in> set xs" "f x = Inl e" "\<forall>y \<in> set xs. f y = Inl e \<or> (\<exists>z. f y = Inr z)"
  shows "mapF f xs = Inl e"
  using assms
proof (induction xs)
  case Nil
  then show ?case by simp
next
  case (Cons a xs)
  show ?case
  proof (cases "f a")
    case (Inl e')
    then have "e' = e" using Cons.prems(3) by auto
    then show ?thesis using Inl by simp
  next
    case (Inr z)
    then have "x \<in> set xs" using Cons.prems(1,2) by auto
    then have "mapF f xs = Inl e" using Cons.IH Cons.prems(2,3) by simp
    then show ?thesis using Inr by simp
  qed
qed

lemma zipF_map2: "length xs \<le> length ts \<Longrightarrow> zipF f xs ts = Inr (map2 f xs ts)"
  by (induction f xs ts rule: zipF.induct) simp_all

lemma zipF_short: "length ts < length xs \<Longrightarrow> zipF f xs ts = Inl UndefinedBehaviour"
  by (induction f xs ts rule: zipF.induct) simp_all

lemma NNV_ASSERT_True [simp]: "NNV_ASSERT b True = Inr ()"
  by (simp add: NNV_ASSERT_def)

lemma NNV_ASSERT_Release [simp]: "NNV_ASSERT Release c = Inr ()"
  by (simp add: NNV_ASSERT_def)

lemma NNV_ASSERT_Debug_False [simp]: "\<not> c \<Longrightarrow> NNV_ASSERT Debug c = Inl AssertionAbort"
  by (simp add: NNV_ASSERT_def)

section \<open>Layer operations\<close>

text \<open>
  Claim C7. On a trainable layer whose units all have as many weights as
  \<^verbatim>\<open>prevLayerActivations\<close> has entries, \<^verbatim>\<open>Layer::updateWeights\<close> replaces every weight
  \<open>w\<^sub>k\<close> of a unit by \<open>w\<^sub>k - lr * delta * a\<^sub>k\<close> and its bias by \<open>bias - lr * delta\<close>, in
  either build; on a layer marked non-trainable it changes nothing.
\<close>

theorem Layer_updateWeights_rule:
  "(l_trainable l \<and> (\<forall>n \<in> set (neurons l). length (n_inputWeights n) = length prevActivations)
      \<longrightarrow> Layer_updateWeights b lr prevActivations l
          = Inr (l\<lparr>neurons :=
                   map (\<lambda>n. n\<lparr>n_inputWeights :=
                                 map2 (\<lambda>w a. w - lr * n_delta n * a) (n_inputWeights n)
                                   prevActivations,
                               n_bias := n_bias n - lr * n_delta n\<rparr>)
                     (neurons l)\<rparr>))
   \<and> (\<not> l_trainable l \<longrightarrow> Layer_updateWeights b lr prevActivations l = Inr l)"
proof (intro conjI impI)
  assume h: "l_trainable l \<and> (\<forall>n \<in> set (neurons l). length (n_inputWeights n) = length prevActivations)"
  let ?g = "\<lambda>n. n\<lparr>n_inputWeights :=
                     map2 (\<lambda>w a. w - lr * n_delta n * a) (n_inputWeights n) prevActivations,
                   n_bias := n_bias n - lr * n_delta n\<rparr>"
  let ?f = "\<lambda>neuron.
                 bindF (NNV_ASSERT b (length (n_inputWeights neuron)
                                       = length prevActivations)) (\<lambda>_.
                 let delta = n_delta neuron in
                 bindF (zipF (\<lambda>w a. w - lr * delta * a)
                          (n_inputWeights neuron) prevActivations) (\<lambda>weights.
                 Inr (neuron\<lparr>n_inputWeights := weights,
                             n_bias := n_bias neuron - lr * delta\<rparr>)))"
  have "\<forall>n \<in> set (neurons l). ?f n = Inr (?g n)"
    using h by (simp add: zipF_map2 Let_def)
  then have "mapF ?f (neurons l) = Inr (map ?g (neurons l))" by (rule mapF_Inr_map)
  then show "Layer_updateWeights b lr prevActivations l = Inr (l\<lparr>neurons := map ?g (neurons l)\<rparr>)"
    using h by (simp add: Layer_updateWeights_def)
next
  assume "\<not> l_trainable l"
  then show "Layer_updateWeights b lr prevActivations l = Inr l"
    by (simp add: Layer_updateWeights_def)
qed

theorem Layer_updateWeights_rule_witness:
  "l_trainable demo_layer
   \<and> list_all (\<lambda>n. length (n_inputWeights n) = length [1, 2 :: scalar]) (neurons demo_layer)
   \<and> Layer_updateWeights Debug (1 / 10) [1, 2] demo_layer
       = Inr (demo_layer\<lparr>neurons :=
                [(Neuron_ctor 0)\<lparr>n_inputWeights := [1 / 5, 7 / 5], n_bias := 7 / 10, n_delta := 3\<rparr>]\<rparr>)
   \<and> \<not> l_trainable (demo_layer\<lparr>l_trainable := False\<rparr>)
   \<and> Layer_updateWeights Debug (1 / 10) [1, 2] (demo_layer\<lparr>l_trainable := False\<rparr>)
       = Inr (demo_layer\<lparr>l_trainable := False\<rparr>)"
proof -
  have t: "l_trainable demo_layer"
    by (simp add: demo_layer_def Layer_ctor_def)
  have len: "\<forall>n \<in> set (neurons demo_layer). length (n_inputWeights n) = length [1, 2 :: scalar]"
    by (simp add: demo_layer_def Layer_ctor_def Neuron_ctor_def)
  have "Layer_updateWeights Debug (1 / 10) [1, 2] demo_layer
        = Inr (demo_layer\<lparr>neurons :=
                   map (\<lambda>n. n\<lparr>n_inputWeights :=
                                 map2 (\<lambda>w a. w - (1 / 10) * n_delta n * a) (n_inputWeights n)
                                   [1, 2],
                               n_bias := n_bias n - (1 / 10) * n_delta n\<rparr>)
                     (neurons demo_layer)\<rparr>)"
    by (rule Layer_updateWeights_rule [of demo_layer "[1, 2]" Debug "1 / 10",
               THEN conjunct1, rule_format, OF conjI [OF t len]])
  then have upd: "Layer_updateWeights Debug (1 / 10) [1, 2] demo_layer
       = Inr (demo_layer\<lparr>neurons :=
                [(Neuron_ctor 0)\<lparr>n_inputWeights := [1 / 5, 7 / 5], n_bias := 7 / 10, n_delta := 3\<rparr>]\<rparr>)"
    by (simp add: demo_layer_def Layer_ctor_def Neuron_ctor_def)
  have nt: "\<not> l_trainable (demo_layer\<lparr>l_trainable := False\<rparr>)" by simp
  have frozen: "Layer_updateWeights Debug (1 / 10) [1, 2] (demo_layer\<lparr>l_trainable := False\<rparr>)
       = Inr (demo_layer\<lparr>l_trainable := False\<rparr>)"
    by (rule Layer_updateWeights_rule [of "demo_layer\<lparr>l_trainable := False\<rparr>" "[1, 2]" Debug
               "1 / 10", THEN conjunct2, rule_format, OF nt])
  have len': "list_all (\<lambda>n. length (n_inputWeights n) = length [1, 2 :: scalar]) (neurons demo_layer)"
    using len by (simp add: list_all_iff)
  show ?thesis by (intro conjI) (rule t len' upd nt frozen)+
qed

lemma weightedSum_sum:
  "length xs \<le> length ws \<Longrightarrow>
   weightedSum s xs ws = Inr (s + (\<Sum>k<length xs. xs ! k * ws ! k))"
proof (induction s xs ws rule: weightedSum.induct)
  case (1 s ws)
  then show ?case by simp
next
  case (2 s x xs)
  then show ?case by simp
next
  case (3 s x xs w ws)
  then show ?case by (simp add: sum.lessThan_Suc_shift add.assoc del: sum.lessThan_Suc)
qed

lemma weightedSum_short:
  "length ws < length xs \<Longrightarrow> weightedSum s xs ws = Inl UndefinedBehaviour"
  by (induction s xs ws rule: weightedSum.induct) simp_all

text \<open>
  Claim C3, as amended. On a layer whose units all have as many weights as the input
  vector has entries, \<^verbatim>\<open>Layer::forward\<close> sets every unit's weighted input to the dot
  product \<open>\<Sum>k. input\<^sub>k * weight\<^sub>k\<close> (a debug build also asserts that the layer has a
  unit). A length mismatch is only guarded by \<^verbatim>\<open>NNV_ASSERT\<close>: a debug build aborts on
  it, and a release build does not check it and reads past the weights of a unit that
  has fewer weights than there are inputs.
\<close>

theorem Layer_forward_rule:
  "((b = Release \<or> neurons l \<noteq> [])
      \<and> (\<forall>n \<in> set (neurons l). length (n_inputWeights n) = length inputs)
      \<longrightarrow> Layer_forward b inputs l
          = Inr (l\<lparr>neurons :=
                   map (\<lambda>n. n\<lparr>n_weightedInput :=
                                 (\<Sum>k<length inputs. inputs ! k * n_inputWeights n ! k)\<rparr>)
                     (neurons l)\<rparr>))
   \<and> ((\<exists>n \<in> set (neurons l). length (n_inputWeights n) \<noteq> length inputs)
      \<longrightarrow> Layer_forward Debug inputs l = Inl AssertionAbort)
   \<and> ((\<exists>n \<in> set (neurons l). length (n_inputWeights n) < length inputs)
      \<longrightarrow> Layer_forward Release inputs l = Inl UndefinedBehaviour)"
proof (intro conjI impI)
  let ?f = "\<lambda>b neuron.
              bindF (NNV_ASSERT b (length (n_inputWeights neuron) = length inputs)) (\<lambda>_.
              bindF (weightedSum 0 inputs (n_inputWeights neuron)) (\<lambda>s.
              Inr (neuron\<lparr>n_weightedInput := s\<rparr>)))"
  {
    assume h: "(b = Release \<or> neurons l \<noteq> [])
      \<and> (\<forall>n \<in> set (neurons l). length (n_inputWeights n) = length inputs)"
    let ?g = "\<lambda>n. n\<lparr>n_weightedInput := (\<Sum>k<length inputs. inputs ! k * n_inputWeights n ! k)\<rparr>"
    have "\<forall>n \<in> set (neurons l). ?f b n = Inr (?g n)"
      using h by (simp add: weightedSum_sum)
    then have "mapF (?f b) (neurons l) = Inr (map ?g (neurons l))" by (rule mapF_Inr_map)
    moreover have "NNV_ASSERT b (neurons l \<noteq> []) = Inr ()"
      using h by (auto simp: NNV_ASSERT_def)
    ultimately show "Layer_forward b inputs l = Inr (l\<lparr>neurons := map ?g (neurons l)\<rparr>)"
      by (simp add: Layer_forward_def)
  }
  {
    assume "\<exists>n \<in> set (neurons l). length (n_inputWeights n) \<noteq> length inputs"
    then obtain n where n: "n \<in> set (neurons l)" "length (n_inputWeights n) \<noteq> length inputs"
      by blast
    have bad: "?f Debug n = Inl AssertionAbort" using n(2) by simp
    have all: "\<forall>y \<in> set (neurons l). ?f Debug y = Inl AssertionAbort \<or> (\<exists>z. ?f Debug y = Inr z)"
    proof
      fix y assume "y \<in> set (neurons l)"
      show "?f Debug y = Inl AssertionAbort \<or> (\<exists>z. ?f Debug y = Inr z)"
      proof (cases "length (n_inputWeights y) = length inputs")
        case True
        then show ?thesis by (simp add: weightedSum_sum)
      next
        case False
        then show ?thesis by simp
      qed
    qed
    have "mapF (?f Debug) (neurons l) = Inl AssertionAbort"
      using mapF_Inl [OF n(1) bad all] .
    moreover have "neurons l \<noteq> []" using n(1) by auto
    ultimately show "Layer_forward Debug inputs l = Inl AssertionAbort"
      by (simp add: Layer_forward_def)
  }
  {
    assume "\<exists>n \<in> set (neurons l). length (n_inputWeights n) < length inputs"
    then obtain n where n: "n \<in> set (neurons l)" "length (n_inputWeights n) < length inputs"
      by blast
    have bad: "?f Release n = Inl UndefinedBehaviour" using n(2) by (simp add: weightedSum_short)
    have all: "\<forall>y \<in> set (neurons l). ?f Release y = Inl UndefinedBehaviour \<or> (\<exists>z. ?f Release y = Inr z)"
    proof
      fix y assume "y \<in> set (neurons l)"
      show "?f Release y = Inl UndefinedBehaviour \<or> (\<exists>z. ?f Release y = Inr z)"
      proof (cases "length inputs \<le> length (n_inputWeights y)")
        case True
        then show ?thesis by (simp add: weightedSum_sum)
      next
        case False
        then show ?thesis by (simp add: weightedSum_short)
      qed
    qed
    have "mapF (?f Release) (neurons l) = Inl UndefinedBehaviour"
      using mapF_Inl [OF n(1) bad all] .
    then show "Layer_forward Release inputs l = Inl UndefinedBehaviour"
      by (simp add: Layer_forward_def)
  }
qed

theorem Layer_forward_rule_witness:
  "(neurons demo_layer \<noteq> []
      \<and> list_all (\<lambda>n. length (n_inputWeights n) = length [1, 2 :: scalar]) (neurons demo_layer))
   \<and> Layer_forward Debug [1, 2] demo_layer
       = Inr (demo_layer\<lparr>neurons :=
                [(Neuron_ctor 0)\<lparr>n_inputWeights := [1 / 2, 2], n_bias := 1, n_delta := 3,
                                n_weightedInput := 9 / 2\<rparr>]\<rparr>)
   \<and> (\<exists>n \<in> set (neurons demo_layer). length (n_inputWeights n) \<noteq> length [1 :: scalar])
   \<and> Layer_forward Debug [1] demo_layer = Inl AssertionAbort
   \<and> (\<exists>n \<in> set (neurons demo_layer). length (n_inputWeights n) < length [1, 2, 3 :: scalar])
   \<and> Layer_forward Release [1, 2, 3] demo_layer = Inl UndefinedBehaviour"
proof -
  have ne: "neurons demo_layer \<noteq> []"
    by (simp add: demo_layer_def Layer_ctor_def)
  have len: "\<forall>n \<in> set (neurons demo_layer). length (n_inputWeights n) = length [1, 2 :: scalar]"
    by (simp add: demo_layer_def Layer_ctor_def Neuron_ctor_def)
  have "Layer_forward Debug [1, 2] demo_layer
        = Inr (demo_layer\<lparr>neurons :=
                 map (\<lambda>n. n\<lparr>n_weightedInput :=
                               (\<Sum>k<length [1, 2 :: scalar]. [1, 2] ! k * n_inputWeights n ! k)\<rparr>)
                   (neurons demo_layer)\<rparr>)"
    by (rule Layer_forward_rule [of Debug demo_layer "[1, 2]", THEN conjunct1, rule_format,
               OF conjI [OF disjI2 [OF ne] len]])
  then have ok: "Layer_forward Debug [1, 2] demo_layer
       = Inr (demo_layer\<lparr>neurons :=
                [(Neuron_ctor 0)\<lparr>n_inputWeights := [1 / 2, 2], n_bias := 1, n_delta := 3,
                                n_weightedInput := 9 / 2\<rparr>]\<rparr>)"
    by (simp add: demo_layer_def Layer_ctor_def Neuron_ctor_def lessThan_Suc numeral_2_eq_2)
  have m1: "\<exists>n \<in> set (neurons demo_layer). length (n_inputWeights n) \<noteq> length [1 :: scalar]"
    by (simp add: demo_layer_def Layer_ctor_def Neuron_ctor_def)
  have ab: "Layer_forward Debug [1] demo_layer = Inl AssertionAbort"
    by (rule Layer_forward_rule [of Debug demo_layer "[1]", THEN conjunct2, THEN conjunct1,
               rule_format, OF m1])
  have m2: "\<exists>n \<in> set (neurons demo_layer). length (n_inputWeights n) < length [1, 2, 3 :: scalar]"
    by (simp add: demo_layer_def Layer_ctor_def Neuron_ctor_def)
  have ub: "Layer_forward Release [1, 2, 3] demo_layer = Inl UndefinedBehaviour"
    by (rule Layer_forward_rule [of Debug demo_layer "[1, 2, 3]", THEN conjunct2, THEN conjunct2,
               rule_format, OF m2])
  have len': "list_all (\<lambda>n. length (n_inputWeights n) = length [1, 2 :: scalar]) (neurons demo_layer)"
    using len by (simp add: list_all_iff)
  show ?thesis by (intro conjI) (rule ne len' ok m1 ab m2 ub)+
qed

text \<open>
  The claim as stated (a mismatch is logged as a DimensionMismatch and degraded to a
  harmless result, neither thrown nor crashing) fails on the layer of one unit with two
  weights: with one input a debug build aborts, and a release build silently stores the
  sum over the first weight; with three inputs a release build reads \<^verbatim>\<open>weights[2]\<close>.
  Nothing is logged on any of these paths.
\<close>

lemmas layer_eval_defs =
  demo_layer_def Layer_ctor_def Neuron_ctor_def Layer_forward_def NNV_ASSERT_def bindF_def

theorem Layer_forward_mismatch_counterexample:
  "Layer_forward Debug [1] demo_layer = Inl AssertionAbort
   \<and> Layer_forward Release [1, 2, 3] demo_layer = Inl UndefinedBehaviour
   \<and> Layer_forward Release [1] demo_layer
       = Inr (demo_layer\<lparr>neurons :=
                [(Neuron_ctor 0)\<lparr>n_inputWeights := [1 / 2, 2], n_bias := 1, n_delta := 3,
                                n_weightedInput := 1 / 2\<rparr>]\<rparr>)"
  by (simp add: layer_eval_defs)

section \<open>The forward pass\<close>

lemma Layer_forward_match:
  assumes "neurons l \<noteq> []" "\<forall>n \<in> set (neurons l). length (n_inputWeights n) = length inputs"
  shows "Layer_forward b inputs l
         = Inr (l\<lparr>neurons :=
                  map (\<lambda>n. n\<lparr>n_weightedInput :=
                                (\<Sum>k<length inputs. inputs ! k * n_inputWeights n ! k)\<rparr>)
                    (neurons l)\<rparr>)"
proof -
  let ?f = "\<lambda>neuron.
              bindF (NNV_ASSERT b (length (n_inputWeights neuron) = length inputs)) (\<lambda>_.
              bindF (weightedSum 0 inputs (n_inputWeights neuron)) (\<lambda>s.
              Inr (neuron\<lparr>n_weightedInput := s\<rparr>)))"
  let ?g = "\<lambda>n. n\<lparr>n_weightedInput := (\<Sum>k<length inputs. inputs ! k * n_inputWeights n ! k)\<rparr>"
  have "\<forall>n \<in> set (neurons l). ?f n = Inr (?g n)"
    using assms(2) by (simp add: weightedSum_sum)
  then have "mapF ?f (neurons l) = Inr (map ?g (neurons l))" by (rule mapF_Inr_map)
  then show ?thesis using assms(1) by (simp add: Layer_forward_def)
qed

lemma softmax_Inr:
  "x \<noteq> [] \<Longrightarrow> \<exists>outs. softmax x = Inr outs \<and> length outs = length x"
  by (simp add: softmax_def Let_def)

lemma Layer_applyActivation_ok:
  assumes "neurons l \<noteq> []"
  shows "\<exists>l2. Layer_applyActivation l = Inr l2 \<and> length (neurons l2) = length (neurons l)
              \<and> dropoutMask l2 = dropoutMask l"
proof (cases "activationType l = ActivationType_Softmax")
  case False
  then show ?thesis by (simp add: Layer_applyActivation_def)
next
  case True
  obtain outs where o: "softmax (map (\<lambda>n. n_weightedInput n + n_bias n) (neurons l)) = Inr outs"
    "length outs = length (neurons l)"
    using softmax_Inr [of "map (\<lambda>n. n_weightedInput n + n_bias n) (neurons l)"] assms by auto
  then show ?thesis using True by (simp add: Layer_applyActivation_def zipF_map2)
qed

lemma dropout_loop_ok:
  "length ms \<le> length ns \<Longrightarrow>
   \<exists>ms' ns'. dropout_loop keepProb draws k ms ns = Inr (ms', ns') \<and> length ns' = length ns
              \<and> length ms' = length ms"
proof (induction ms arbitrary: ns k)
  case Nil
  then show ?case by simp
next
  case (Cons m ms)
  then obtain n ns0 where ns: "ns = n # ns0" by (cases ns) auto
  then have "length ms \<le> length ns0" using Cons.prems by simp
  then obtain ms' ns' where
    "dropout_loop keepProb draws (Suc k) ms ns0 = Inr (ms', ns')" "length ns' = length ns0"
    "length ms' = length ms"
    using Cons.IH by blast
  then show ?case using ns by (simp add: Let_def)
qed

lemma Layer_applyDropout_ok:
  assumes "length (dropoutMask l) = length (neurons l)"
  shows "\<exists>l3 g'. Layer_applyDropout training g l = Inr (l3, g')
                \<and> length (neurons l3) = length (neurons l)"
proof (cases "\<not> training \<or> dropoutRate l \<le> 0")
  case True
  then show ?thesis by (auto simp: Layer_applyDropout_def)
next
  case False
  obtain ms' ns' where
    "dropout_loop (1 - dropoutRate l) (uniform_real g) 0 (dropoutMask l) (neurons l) = Inr (ms', ns')"
    "length ns' = length (neurons l)"
    using dropout_loop_ok [of "dropoutMask l" "neurons l"] assms by fastforce
  then show ?thesis using False by (simp add: Layer_applyDropout_def Let_def)
qed

lemma forward_loop_ok:
  "connected (length prev) ls \<Longrightarrow>
   \<exists>ls' g'. forward_loop b training prev g ls = Inr (ls', g')
            \<and> map (\<lambda>l. length (neurons l)) ls' = map (\<lambda>l. length (neurons l)) ls"
proof (induction ls arbitrary: prev g)
  case Nil
  then show ?case by simp
next
  case (Cons l ls)
  then have ne: "neurons l \<noteq> []"
    and w: "\<forall>n \<in> set (neurons l). length (n_inputWeights n) = length prev"
    and m: "length (dropoutMask l) = length (neurons l)"
    and rest: "connected (length (neurons l)) ls" by simp_all
  obtain l1 where l1: "Layer_forward b prev l = Inr l1" "length (neurons l1) = length (neurons l)"
    "dropoutMask l1 = dropoutMask l"
    using Layer_forward_match [OF ne w, of b] by simp
  have ne1: "neurons l1 \<noteq> []" using l1(2) ne by auto
  obtain l2 where l2: "Layer_applyActivation l1 = Inr l2"
    "length (neurons l2) = length (neurons l1)" "dropoutMask l2 = dropoutMask l1"
    using Layer_applyActivation_ok [OF ne1] by blast
  have m2: "length (dropoutMask l2) = length (neurons l2)" using l1 l2 m by simp
  obtain l3 g1 where l3: "Layer_applyDropout training g l2 = Inr (l3, g1)"
    "length (neurons l3) = length (neurons l2)"
    using Layer_applyDropout_ok [OF m2] by blast
  have len3: "length (neurons l3) = length (neurons l)" using l1 l2 l3 by simp
  then have "connected (length (getActivations l3)) ls"
    using rest by (simp add: getActivations_def)
  then obtain ls' g2 where
    r: "forward_loop b training (getActivations l3) g1 ls = Inr (ls', g2)"
    "map (\<lambda>l. length (neurons l)) ls' = map (\<lambda>l. length (neurons l)) ls"
    using Cons.IH by blast
  show ?case using l1(1) l2(1) l3(1) r len3 by simp
qed

lemma setActivations_ok:
  "length inputs = length (neurons l) \<Longrightarrow>
   setActivations b inputs l
   = Inr (l\<lparr>neurons := map2 (\<lambda>n a. n\<lparr>n_activation := a\<rparr>) (neurons l) inputs\<rparr>)"
  by (simp add: setActivations_def zipF_map2)

lemma last_length_neurons:
  "map (\<lambda>l. length (neurons l)) xs = map (\<lambda>l. length (neurons l)) ys \<Longrightarrow> xs \<noteq> [] \<Longrightarrow>
   length (neurons (last xs)) = length (neurons (last ys))"
proof -
  assume a: "map (\<lambda>l. length (neurons l)) xs = map (\<lambda>l. length (neurons l)) ys" and ne: "xs \<noteq> []"
  then have ne': "ys \<noteq> []" by auto
  have "last (map (\<lambda>l. length (neurons l)) xs) = last (map (\<lambda>l. length (neurons l)) ys)"
    using a by simp
  then show ?thesis using ne ne' by (simp add: last_map)
qed

text \<open>
  Claim C2, as amended. \<^verbatim>\<open>NeuralNetwork::forward\<close> returns an empty result, leaving the
  network as it was, when the network has no layer or when the input length differs
  from the size of the first layer. Otherwise, on a network that satisfies the
  invariant of the data model (\<open>connected\<close>), it returns a vector whose length is the
  size of the last layer, in either build and in either training mode.
\<close>

theorem Network_forward_result:
  "(layers net = [] \<longrightarrow> Network_forward b inputs g net = Inr ([], net, g))
   \<and> (layers net \<noteq> [] \<and> length inputs \<noteq> getSize (hd (layers net))
        \<longrightarrow> Network_forward b inputs g net = Inr ([], net, g))
   \<and> (layers net \<noteq> [] \<and> length inputs = getSize (hd (layers net))
        \<and> connected (getSize (hd (layers net))) (tl (layers net))
        \<longrightarrow> (\<exists>outputs net' g'. Network_forward b inputs g net = Inr (outputs, net', g')
               \<and> length outputs = getSize (last (layers net))))"
proof (intro conjI impI)
  assume "layers net = []"
  then show "Network_forward b inputs g net = Inr ([], net, g)"
    by (simp add: Network_forward_def)
next
  assume "layers net \<noteq> [] \<and> length inputs \<noteq> getSize (hd (layers net))"
  then show "Network_forward b inputs g net = Inr ([], net, g)"
    by (cases "layers net") (simp_all add: Network_forward_def)
next
  assume h: "layers net \<noteq> [] \<and> length inputs = getSize (hd (layers net))
        \<and> connected (getSize (hd (layers net))) (tl (layers net))"
  then obtain l0 rest where ls: "layers net = l0 # rest" by (cases "layers net") auto
  have len: "length inputs = length (neurons l0)" using h ls by (simp add: getSize_def)
  let ?l0' = "l0\<lparr>neurons := map2 (\<lambda>n a. n\<lparr>n_activation := a\<rparr>) (neurons l0) inputs\<rparr>"
  have s0: "setActivations b inputs l0 = Inr ?l0'" using setActivations_ok [OF len] .
  have n0: "length (neurons ?l0') = length (neurons l0)" using len by simp
  have "connected (length (getActivations ?l0')) rest"
    using h ls len by (simp add: getSize_def getActivations_def)
  then obtain rest' g' where
    r: "forward_loop b (isTraining net) (getActivations ?l0') g rest = Inr (rest', g')"
    "map (\<lambda>l. length (neurons l)) rest' = map (\<lambda>l. length (neurons l)) rest"
    using forward_loop_ok by blast
  have "map (\<lambda>l. length (neurons l)) (?l0' # rest') = map (\<lambda>l. length (neurons l)) (l0 # rest)"
    using r(2) n0 by simp
  then have "length (neurons (last (?l0' # rest'))) = length (neurons (last (l0 # rest)))"
    by (rule last_length_neurons) simp
  then have "length (getActivations (last (?l0' # rest'))) = getSize (last (layers net))"
    using ls by (simp add: getActivations_def getSize_def)
  then show "\<exists>outputs net' g'. Network_forward b inputs g net = Inr (outputs, net', g')
               \<and> length outputs = getSize (last (layers net))"
    using ls len s0 r(1) by (simp add: Network_forward_def getSize_def)
qed

theorem Network_forward_result_witness:
  "layers (demo_network\<lparr>layers := []\<rparr>) = []
   \<and> Network_forward Debug [1] zero_rng (demo_network\<lparr>layers := []\<rparr>)
       = Inr ([], demo_network\<lparr>layers := []\<rparr>, zero_rng)
   \<and> (layers demo_network \<noteq> [] \<and> length [1, 2 :: scalar] \<noteq> getSize (hd (layers demo_network)))
   \<and> Network_forward Debug [1, 2] zero_rng demo_network = Inr ([], demo_network, zero_rng)
   \<and> (layers demo_network \<noteq> [] \<and> length [1 :: scalar] = getSize (hd (layers demo_network))
        \<and> connected (getSize (hd (layers demo_network))) (tl (layers demo_network)))
   \<and> (\<exists>outputs net' g'. Network_forward Debug [1] zero_rng demo_network = Inr (outputs, net', g')
         \<and> length outputs = 1)"
proof -
  have e: "layers (demo_network\<lparr>layers := []\<rparr>) = []" by simp
  have r1: "Network_forward Debug [1] zero_rng (demo_network\<lparr>layers := []\<rparr>)
       = Inr ([], demo_network\<lparr>layers := []\<rparr>, zero_rng)"
    by (rule Network_forward_result [of "demo_network\<lparr>layers := []\<rparr>" Debug "[1]" zero_rng,
               THEN conjunct1, rule_format, OF e])
  have m: "layers demo_network \<noteq> [] \<and> length [1, 2 :: scalar] \<noteq> getSize (hd (layers demo_network))"
    by (simp add: demo_network_def getSize_def Layer_ctor_def)
  have r2: "Network_forward Debug [1, 2] zero_rng demo_network = Inr ([], demo_network, zero_rng)"
    by (rule Network_forward_result [of demo_network Debug "[1, 2]" zero_rng,
               THEN conjunct2, THEN conjunct1, rule_format, OF m])
  have c: "layers demo_network \<noteq> [] \<and> length [1 :: scalar] = getSize (hd (layers demo_network))
        \<and> connected (getSize (hd (layers demo_network))) (tl (layers demo_network))"
    by (simp add: demo_network_def getSize_def Layer_ctor_def Neuron_ctor_def)
  have sz: "getSize (last (layers demo_network)) = 1"
    by (simp add: demo_network_def getSize_def Layer_ctor_def)
  have r3: "\<exists>outputs net' g'. Network_forward Debug [1] zero_rng demo_network = Inr (outputs, net', g')
         \<and> length outputs = 1"
    using Network_forward_result [of demo_network Debug "[1]" zero_rng,
               THEN conjunct2, THEN conjunct2, rule_format, OF c]
    unfolding sz .
  show ?thesis by (intro conjI) (rule e r1 m [THEN conjunct1] m [THEN conjunct2] r2 c [THEN conjunct1] c [THEN conjunct2, THEN conjunct1] c [THEN conjunct2, THEN conjunct2] r3)+
qed

text \<open>
  The claim as stated (for every network) fails on a network that breaks the
  invariant: the input has the length of the first layer, and the call neither returns
  an empty result nor a vector of the size of the last layer. A debug build aborts in
  the \<^verbatim>\<open>NNV_ASSERT\<close> of \<^verbatim>\<open>Layer::forward\<close>; a release build reads \<^verbatim>\<open>weights[0]\<close> of an
  empty vector.
\<close>

lemmas network_eval_defs =
  broken_network_def demo_network_def zero_rng_def Network_forward_def setActivations_def
  getActivations_def getSize_def Layer_forward_def Layer_ctor_def Neuron_ctor_def
  NNV_ASSERT_def bindF_def

theorem Network_forward_counterexample:
  "layers broken_network \<noteq> []
   \<and> length [1 :: scalar] = getSize (hd (layers broken_network))
   \<and> Network_forward Debug [1] zero_rng broken_network = Inl AssertionAbort
   \<and> Network_forward Release [1] zero_rng broken_network = Inl UndefinedBehaviour"
  by (simp add: network_eval_defs)

section \<open>Inference\<close>

lemma mapF_fixed:
  "mapF f xs = Inr ys \<Longrightarrow> (\<forall>x y. f x = Inr y \<longrightarrow> P y) \<Longrightarrow> \<forall>y \<in> set ys. P y"
proof (induction xs arbitrary: ys)
  case Nil
  then show ?case by simp
next
  case (Cons a xs)
  then obtain y ys0 where "f a = Inr y" "mapF f xs = Inr ys0" "ys = y # ys0"
    by (cases "f a"; cases "mapF f xs") auto
  then show ?case using Cons.IH [of ys0] Cons.prems(2) by auto
qed

lemma mapF_preserve:
  assumes "mapF f xs = Inr ys" and keep: "\<And>x y. f x = Inr y \<Longrightarrow> p y = p x"
  shows "map p ys = map p xs"
  using assms(1)
proof (induction xs arbitrary: ys)
  case Nil
  then show ?case by simp
next
  case (Cons a xs)
  from Cons.prems obtain y ys0 where y: "f a = Inr y" and r: "mapF f xs = Inr ys0" and e: "ys = y # ys0"
    by (cases "f a"; cases "mapF f xs") auto
  have "p y = p a" using keep [OF y] .
  moreover have "map p ys0 = map p xs" using Cons.IH [OF r] .
  ultimately show ?case using e by simp
qed

lemma mapF_id: "(\<forall>x \<in> set xs. f x = Inr x) \<Longrightarrow> mapF f xs = Inr xs"
  by (induction xs) simp_all

lemma Layer_forward_unit:
  "Layer_forward b inputs l =
     bindF (NNV_ASSERT b (neurons l \<noteq> [])) (\<lambda>_.
     bindF (mapF (unit_forward b inputs) (neurons l)) (\<lambda>ns. Inr (l\<lparr>neurons := ns\<rparr>)))"
  unfolding Layer_forward_def unit_forward_def ..

lemma unit_forward_cases:
  assumes "unit_forward b inputs n = Inr n1"
  obtains s where "NNV_ASSERT b (length (n_inputWeights n) = length inputs) = Inr ()"
    "weightedSum 0 inputs (n_inputWeights n) = Inr s" "n1 = n\<lparr>n_weightedInput := s\<rparr>"
  using assms
  by (cases "NNV_ASSERT b (length (n_inputWeights n) = length inputs)";
      cases "weightedSum 0 inputs (n_inputWeights n)")
     (auto simp: unit_forward_def)

lemma unit_forward_idem:
  "unit_forward b inputs n = Inr n1 \<Longrightarrow> unit_forward b inputs n1 = Inr n1"
  by (erule unit_forward_cases) (simp add: unit_forward_def)

lemma unit_forward_activation:
  assumes "unit_forward b inputs n = Inr n"
  shows "unit_forward b inputs (n\<lparr>n_activation := a\<rparr>) = Inr (n\<lparr>n_activation := a\<rparr>)"
proof -
  obtain s where a: "NNV_ASSERT b (length (n_inputWeights n) = length inputs) = Inr ()"
    and w: "weightedSum 0 inputs (n_inputWeights n) = Inr s" and e: "n = n\<lparr>n_weightedInput := s\<rparr>"
    using assms by (rule unit_forward_cases)
  have "n_weightedInput n = s" by (subst e) simp
  then have "n\<lparr>n_activation := a, n_weightedInput := s\<rparr> = n\<lparr>n_activation := a\<rparr>" by simp
  then show ?thesis using a w by (simp add: unit_forward_def)
qed

lemma unit_forward_parameters:
  "unit_forward b inputs n = Inr n1 \<Longrightarrow>
   (n_inputWeights n1, n_bias n1) = (n_inputWeights n, n_bias n)"
  by (erule unit_forward_cases) simp

lemma forwarded_fixed: "forwarded b inputs l \<Longrightarrow> Layer_forward b inputs l = Inr l"
  by (simp add: forwarded_def Layer_forward_unit mapF_id list_all_iff)

lemma Layer_forward_forwarded:
  assumes "Layer_forward b inputs l = Inr l1"
  shows "forwarded b inputs l1"
    and "map (\<lambda>n. (n_inputWeights n, n_bias n)) (neurons l1)
         = map (\<lambda>n. (n_inputWeights n, n_bias n)) (neurons l)"
    and "activationType l1 = activationType l" and "dropoutMask l1 = dropoutMask l"
proof -
  have a: "NNV_ASSERT b (neurons l \<noteq> []) = Inr ()"
    using assms by (cases "NNV_ASSERT b (neurons l \<noteq> [])") (auto simp: Layer_forward_unit)
  then obtain ns where ns: "mapF (unit_forward b inputs) (neurons l) = Inr ns"
    and l1: "l1 = l\<lparr>neurons := ns\<rparr>"
    using assms by (cases "mapF (unit_forward b inputs) (neurons l)") (auto simp: Layer_forward_unit)
  have len: "length ns = length (neurons l)" using mapF_length [OF ns] .
  have "\<forall>y \<in> set ns. unit_forward b inputs y = Inr y"
    using mapF_fixed [OF ns, of "\<lambda>y. unit_forward b inputs y = Inr y"] unit_forward_idem by blast
  moreover have "NNV_ASSERT b (ns \<noteq> []) = Inr ()"
    using a len by (auto simp: NNV_ASSERT_def split: if_splits)
  ultimately show "forwarded b inputs l1" using l1 by (simp add: forwarded_def list_all_iff)
  show "map (\<lambda>n. (n_inputWeights n, n_bias n)) (neurons l1)
         = map (\<lambda>n. (n_inputWeights n, n_bias n)) (neurons l)"
    using mapF_preserve [OF ns, of "\<lambda>n. (n_inputWeights n, n_bias n)"] unit_forward_parameters l1
    by (simp del: prod.inject)
  show "activationType l1 = activationType l" "dropoutMask l1 = dropoutMask l"
    using l1 by simp_all
qed

lemma bindF_eq_Inr: "bindF m f = Inr y \<longleftrightarrow> (\<exists>x. m = Inr x \<and> f x = Inr y)"
  by (cases m) simp_all

lemma zipF_Inr: "zipF f xs ts = Inr ys \<Longrightarrow> length xs \<le> length ts \<and> ys = map2 f xs ts"
proof (cases "length xs \<le> length ts")
  case True
  assume "zipF f xs ts = Inr ys"
  then show ?thesis using True zipF_map2 [OF True, of f] by simp
next
  case False
  assume "zipF f xs ts = Inr ys"
  then show ?thesis using False zipF_short [of ts xs f] by simp
qed

lemma set_acts_facts:
  assumes "length ns = length as"
  shows "length (set_acts ns as) = length ns"
    and "map (\<lambda>n. (n_inputWeights n, n_bias n)) (set_acts ns as)
         = map (\<lambda>n. (n_inputWeights n, n_bias n)) ns"
    and "map (\<lambda>n. n_weightedInput n + n_bias n) (set_acts ns as)
         = map (\<lambda>n. n_weightedInput n + n_bias n) ns"
    and "set_acts (set_acts ns as) as = set_acts ns as"
    and "list_all (\<lambda>n. unit_forward b inputs n = Inr n) ns \<Longrightarrow>
         list_all (\<lambda>n. unit_forward b inputs n = Inr n) (set_acts ns as)"
    and "map n_activation (set_acts ns as) = as"
  using assms
  by (induction ns as rule: list_induct2) (simp_all add: set_acts_def unit_forward_activation)

lemma set_acts_map:
  "map (\<lambda>n. n\<lparr>n_activation := h n\<rparr>) ns = set_acts ns (map h ns)"
  by (induction ns) (simp_all add: set_acts_def)

lemma Layer_applyActivation_form:
  assumes "Layer_applyActivation l = Inr l2"
  obtains as where "length as = length (neurons l)" "l2 = l\<lparr>neurons := set_acts (neurons l) as\<rparr>"
proof (cases "activationType l = ActivationType_Softmax")
  case False
  let ?as = "map (\<lambda>n. activationFunc l (n_weightedInput n + n_bias n)) (neurons l)"
  have "map (Neuron_applyActivation (activationFunc l)) (neurons l) = set_acts (neurons l) ?as"
    using set_acts_map [of "\<lambda>n. activationFunc l (n_weightedInput n + n_bias n)" "neurons l"]
    by (simp add: Neuron_applyActivation_def [abs_def])
  then show ?thesis using that [of ?as] assms False by (simp add: Layer_applyActivation_def)
next
  case True
  then obtain outs ns where o: "softmax (map (\<lambda>n. n_weightedInput n + n_bias n) (neurons l)) = Inr outs"
    and z: "zipF (\<lambda>n a. n\<lparr>n_activation := a\<rparr>) (neurons l) outs = Inr ns"
    and l2: "l2 = l\<lparr>neurons := ns\<rparr>"
    using assms by (auto simp: Layer_applyActivation_def bindF_eq_Inr)
  have "length outs = length (neurons l)"
    using o by (auto simp: softmax_def Let_def split: if_splits)
  moreover have "ns = set_acts (neurons l) outs" using zipF_Inr [OF z] by (simp add: set_acts_def)
  ultimately show ?thesis using that [of outs] l2 by simp
qed

lemma Layer_applyActivation_idem:
  assumes "Layer_applyActivation l = Inr l2"
  shows "Layer_applyActivation l2 = Inr l2"
proof (cases "activationType l = ActivationType_Softmax")
  case False
  then have l2: "l2 = l\<lparr>neurons := map (Neuron_applyActivation (activationFunc l)) (neurons l)\<rparr>"
    using assms by (simp add: Layer_applyActivation_def)
  have f: "activationFunc l2 = activationFunc l" using l2 by (simp add: activationFunc_def)
  have "map (Neuron_applyActivation (activationFunc l))
          (map (Neuron_applyActivation (activationFunc l)) (neurons l))
        = map (Neuron_applyActivation (activationFunc l)) (neurons l)"
    by (simp add: Neuron_applyActivation_def)
  then show ?thesis using False l2 f by (simp add: Layer_applyActivation_def)
next
  case True
  then obtain outs ns where o: "softmax (map (\<lambda>n. n_weightedInput n + n_bias n) (neurons l)) = Inr outs"
    and z: "zipF (\<lambda>n a. n\<lparr>n_activation := a\<rparr>) (neurons l) outs = Inr ns"
    and l2: "l2 = l\<lparr>neurons := ns\<rparr>"
    using assms by (auto simp: Layer_applyActivation_def bindF_eq_Inr)
  have len: "length (neurons l) = length outs"
    using o by (auto simp: softmax_def Let_def split: if_splits)
  have ns: "ns = set_acts (neurons l) outs" using zipF_Inr [OF z] by (simp add: set_acts_def)
  have o2: "softmax (map (\<lambda>n. n_weightedInput n + n_bias n) ns) = Inr outs"
    using o set_acts_facts(3) [OF len] ns by simp
  have "length ns \<le> length outs" using set_acts_facts(1) [OF len] ns len by simp
  then have "zipF (\<lambda>n a. n\<lparr>n_activation := a\<rparr>) ns outs = Inr (set_acts ns outs)"
    by (simp add: zipF_map2 set_acts_def)
  then have z2: "zipF (\<lambda>n a. n\<lparr>n_activation := a\<rparr>) ns outs = Inr ns"
    using set_acts_facts(4) [OF len] ns by simp
  show ?thesis using True l2 o2 z2 by (simp add: Layer_applyActivation_def)
qed

lemma Layer_applyActivation_mask:
  assumes "Layer_applyActivation l = Inr l'"
  shows "Layer_applyActivation (l\<lparr>dropoutMask := m\<rparr>) = Inr (l'\<lparr>dropoutMask := m\<rparr>)"
proof (cases "activationType l = ActivationType_Softmax")
  case False
  then show ?thesis using assms by (auto simp: Layer_applyActivation_def activationFunc_def)
next
  case True
  then obtain outs ns where "softmax (map (\<lambda>n. n_weightedInput n + n_bias n) (neurons l)) = Inr outs"
    and "zipF (\<lambda>n a. n\<lparr>n_activation := a\<rparr>) (neurons l) outs = Inr ns"
    and "l' = l\<lparr>neurons := ns\<rparr>"
    using assms by (auto simp: Layer_applyActivation_def bindF_eq_Inr)
  then show ?thesis using True by (simp add: Layer_applyActivation_def)
qed

lemma inference_step:
  assumes f: "Layer_forward b prev l = Inr l1" and a: "Layer_applyActivation l1 = Inr l2"
    and d: "Layer_applyDropout False g l2 = Inr (l3, g1)"
  shows "g1 = g" and "Layer_forward b prev l3 = Inr l3" and "Layer_applyActivation l3 = Inr l3"
    and "Layer_applyDropout False g l3 = Inr (l3, g)"
    and "map (\<lambda>n. (n_inputWeights n, n_bias n)) (neurons l3)
         = map (\<lambda>n. (n_inputWeights n, n_bias n)) (neurons l)"
proof -
  obtain as where as: "length as = length (neurons l1)"
    and l2: "l2 = l1\<lparr>neurons := set_acts (neurons l1) as\<rparr>"
    using a by (rule Layer_applyActivation_form)
  have len: "length (neurons l1) = length as" using as by simp
  have l3: "l3 = l2\<lparr>dropoutMask := replicate (length (dropoutMask l2)) True\<rparr>" and g: "g1 = g"
    using d by (simp_all add: Layer_applyDropout_def)
  show "g1 = g" by (rule g)
  have fw1: "forwarded b prev l1" using Layer_forward_forwarded(1) [OF f] .
  have "forwarded b prev l3"
    using fw1 set_acts_facts(1) [OF len] set_acts_facts(5) [OF len, of b prev] l2 l3
    by (auto simp: forwarded_def NNV_ASSERT_def split: if_splits)
  then show "Layer_forward b prev l3 = Inr l3" by (rule forwarded_fixed)
  have "Layer_applyActivation l2 = Inr l2" using Layer_applyActivation_idem [OF a] .
  then show "Layer_applyActivation l3 = Inr l3"
    unfolding l3 by (rule Layer_applyActivation_mask)
  show "Layer_applyDropout False g l3 = Inr (l3, g)"
    using l3 by (simp add: Layer_applyDropout_def)
  show "map (\<lambda>n. (n_inputWeights n, n_bias n)) (neurons l3)
         = map (\<lambda>n. (n_inputWeights n, n_bias n)) (neurons l)"
    using Layer_forward_forwarded(2) [OF f] set_acts_facts(2) [OF len] l2 l3 by simp
qed

lemma forward_loop_inference:
  "forward_loop b False prev g ls = Inr (ls', g') \<Longrightarrow>
   g' = g \<and> forward_loop b False prev g ls' = Inr (ls', g)
   \<and> map (\<lambda>l. map (\<lambda>n. (n_inputWeights n, n_bias n)) (neurons l)) ls'
     = map (\<lambda>l. map (\<lambda>n. (n_inputWeights n, n_bias n)) (neurons l)) ls"
proof (induction ls arbitrary: prev g ls' g')
  case Nil
  then show ?case by auto
next
  case (Cons l ls)
  from Cons.prems obtain l1 l2 l3 g1 rest' g2 where
    f: "Layer_forward b prev l = Inr l1" and a: "Layer_applyActivation l1 = Inr l2"
    and d: "Layer_applyDropout False g l2 = Inr (l3, g1)"
    and r: "forward_loop b False (getActivations l3) g1 ls = Inr (rest', g2)"
    and e: "ls' = l3 # rest'" "g' = g2"
    by (auto simp: bindF_eq_Inr)
  note st = inference_step [OF f a d]
  have r': "forward_loop b False (getActivations l3) g ls = Inr (rest', g2)"
    using r st(1) by simp
  note ih = Cons.IH [OF r']
  have "forward_loop b False prev g (l3 # rest') = Inr (l3 # rest', g)"
    using st(2,3,4) ih by simp
  then show ?case using e ih st(5) by simp
qed

lemma setActivations_inference:
  assumes "setActivations b inputs l = Inr l'" "length inputs = length (neurons l)"
  shows "setActivations b inputs l' = Inr l'" and "length (neurons l') = length (neurons l)"
    and "map (\<lambda>n. (n_inputWeights n, n_bias n)) (neurons l')
         = map (\<lambda>n. (n_inputWeights n, n_bias n)) (neurons l)"
proof -
  have len: "length (neurons l) = length inputs" using assms(2) by simp
  have l': "l' = l\<lparr>neurons := set_acts (neurons l) inputs\<rparr>"
    using assms by (simp add: setActivations_def zipF_map2 set_acts_def)
  show n: "length (neurons l') = length (neurons l)"
    using l' set_acts_facts(1) [OF len] by simp
  have "zipF (\<lambda>n a. n\<lparr>n_activation := a\<rparr>) (neurons l') inputs = Inr (set_acts (neurons l') inputs)"
    using n len by (simp add: zipF_map2 set_acts_def)
  then show "setActivations b inputs l' = Inr l'"
    using l' n len set_acts_facts(4) [OF len] by (simp add: setActivations_def)
  show "map (\<lambda>n. (n_inputWeights n, n_bias n)) (neurons l')
         = map (\<lambda>n. (n_inputWeights n, n_bias n)) (neurons l)"
    using l' set_acts_facts(2) [OF len] by simp
qed

lemma Network_forward_inference:
  assumes run: "Network_forward b inputs g net = Inr (outputs, net1, g1)" and inf: "\<not> isTraining net"
  shows "g1 = g" and "Network_forward b inputs g net1 = Inr (outputs, net1, g)"
    and "parameters net1 = parameters net" and "isTraining net1 = isTraining net"
proof -
  have all: "g1 = g \<and> Network_forward b inputs g net1 = Inr (outputs, net1, g)
             \<and> parameters net1 = parameters net \<and> isTraining net1 = isTraining net"
  proof (cases "layers net")
    case Nil
    then show ?thesis using run by (simp add: Network_forward_def)
  next
    case (Cons l0 rest)
    show ?thesis
    proof (cases "length inputs = getSize l0")
      case False
      then show ?thesis using run Cons by (simp add: Network_forward_def)
    next
      case True
      then have len: "length inputs = length (neurons l0)" by (simp add: getSize_def)
      from run Cons True inf obtain l0' rest' where
        s: "setActivations b inputs l0 = Inr l0'"
        and r: "forward_loop b False (getActivations l0') g rest = Inr (rest', g1)"
        and o: "outputs = getActivations (last (l0' # rest'))"
        and n: "net1 = net\<lparr>layers := l0' # rest'\<rparr>"
        by (auto simp: Network_forward_def bindF_eq_Inr)
      note s' = setActivations_inference [OF s len]
      note r' = forward_loop_inference [OF r]
      have sz: "length inputs = getSize l0'" using s'(2) len by (simp add: getSize_def)
      have "Network_forward b inputs g net1 = Inr (outputs, net1, g)"
        using n sz s'(1) r' o inf by (simp add: Network_forward_def)
      moreover have "parameters net1 = parameters net"
        using n Cons s'(3) r' by (simp add: parameters_def)
      ultimately show ?thesis using r' n by simp
    qed
  qed
  show "g1 = g" "Network_forward b inputs g net1 = Inr (outputs, net1, g)"
    "parameters net1 = parameters net" "isTraining net1 = isTraining net"
    using all by simp_all
qed

text \<open>
  Claim C4. A call of \<^verbatim>\<open>predict\<close> that returns leaves every unit's weight vector and
  bias as they were and the training-mode flag at its value before the call, and it
  consumes no random draw; a second call with the same input then returns the same
  output and leaves the network exactly as the first call left it. (Calls from one
  thread: the flag is toggled without synchronisation.)
\<close>

theorem predict_idempotent:
  assumes "predict b inputs g net = Inr (outputs, net', g')"
  shows "parameters net' = parameters net \<and> isTraining net' = isTraining net
         \<and> predict b inputs g' net' = Inr (outputs, net', g')"
proof -
  let ?n0 = "net\<lparr>isTraining := False\<rparr>"
  from assms obtain net1 where
    run: "Network_forward b inputs g ?n0 = Inr (outputs, net1, g')"
    and n': "net' = net1\<lparr>isTraining := isTraining net\<rparr>"
    by (auto simp: predict_def Let_def bindF_eq_Inr)
  have inf: "\<not> isTraining ?n0" by simp
  note f = Network_forward_inference [OF run inf]
  have "net1\<lparr>isTraining := False\<rparr> = net1" using f(4) by simp
  then have "net'\<lparr>isTraining := False\<rparr> = net1" using n' by simp
  then have "predict b inputs g' net' = Inr (outputs, net', g')"
    using f(1,2) n' by (simp add: predict_def Let_def)
  moreover have "parameters net' = parameters net"
    using f(3) n' by (simp add: parameters_def)
  ultimately show ?thesis using n' by simp
qed

theorem predict_idempotent_witness:
  "\<exists>net'. predict Debug [1] zero_rng (demo_network\<lparr>isTraining := True\<rparr>)
              = Inr ([1 / 2], net', zero_rng)
          \<and> parameters net' = parameters (demo_network\<lparr>isTraining := True\<rparr>)
          \<and> isTraining net'
          \<and> predict Debug [1] zero_rng net' = Inr ([1 / 2], net', zero_rng)"
proof -
  have "\<exists>net'. predict Debug [1] zero_rng (demo_network\<lparr>isTraining := True\<rparr>)
              = Inr ([1 / 2], net', zero_rng)"
    by (simp add: predict_def network_eval_defs Layer_applyActivation_def Layer_applyDropout_def
          forward_loop.simps Neuron_applyActivation_def activationFunc_def
          ActivationFactory_getFunction_def linear_def ActivationType_None_def
          ActivationType_Softmax_def Let_def)
  then obtain net' where run: "predict Debug [1] zero_rng (demo_network\<lparr>isTraining := True\<rparr>)
              = Inr ([1 / 2], net', zero_rng)" by blast
  show ?thesis using predict_idempotent [OF run] run by auto
qed

section \<open>Accuracy\<close>

lemma max_element_prefix:
  fixes xs :: "scalar list"
  shows "1 \<le> k \<Longrightarrow> k \<le> length xs \<Longrightarrow>
   (let m = foldl (\<lambda>largest i. if xs ! largest < xs ! i then i else largest) 0 [1..<k]
    in m < k \<and> (\<forall>j<k. xs ! j \<le> xs ! m) \<and> (\<forall>j<m. xs ! j < xs ! m))"
proof (induction k)
  case 0
  then show ?case by simp
next
  case (Suc k)
  show ?case
  proof (cases "k = 0")
    case True
    then show ?thesis by simp
  next
    case False
    let ?m = "foldl (\<lambda>largest i. if xs ! largest < xs ! i then i else largest) 0 [1..<k]"
    have ih: "?m < k" "\<forall>j<k. xs ! j \<le> xs ! ?m" "\<forall>j<?m. xs ! j < xs ! ?m"
      using Suc False by (simp_all add: Let_def)
    have k1: "Suc 0 \<le> k" using False by simp
    show ?thesis
    proof (cases "xs ! ?m < xs ! k")
      case True
      have "\<forall>j<Suc k. xs ! j \<le> xs ! k"
      proof (intro allI impI)
        fix j assume "j < Suc k"
        then show "xs ! j \<le> xs ! k"
          using ih(2) True by (cases "j = k") (auto simp: less_Suc_eq intro: order_trans less_imp_le)
      qed
      moreover have "\<forall>j<k. xs ! j < xs ! k"
        using ih(2) True by (auto intro: le_less_trans)
      ultimately show ?thesis using True k1 by (simp add: Let_def)
    next
      case False
      then have "xs ! k \<le> xs ! ?m" by simp
      then have "\<forall>j<Suc k. xs ! j \<le> xs ! ?m" using ih(2) by (auto simp: less_Suc_eq)
      then show ?thesis using False ih(1,3) k1 by (simp add: Let_def)
    qed
  qed
qed

lemma max_element_first_largest:
  assumes "xs \<noteq> []"
  shows "max_element xs < length xs"
    and "\<forall>j<length xs. xs ! j \<le> xs ! max_element xs"
    and "\<forall>j<max_element xs. xs ! j < xs ! max_element xs"
proof -
  have "1 \<le> length xs" using assms by (cases xs) auto
  then have "let m = max_element xs
             in m < length xs \<and> (\<forall>j<length xs. xs ! j \<le> xs ! m) \<and> (\<forall>j<m. xs ! j < xs ! m)"
    using max_element_prefix [of "length xs" xs] by (simp add: max_element_def)
  then show "max_element xs < length xs" "\<forall>j<length xs. xs ! j \<le> xs ! max_element xs"
    "\<forall>j<max_element xs. xs ! j < xs ! max_element xs"
    by (simp_all add: Let_def)
qed

lemma sample_correct_threshold:
  assumes "length out = 1 \<longrightarrow> tgt \<noteq> []"
  shows "sample_correct out tgt = Inr (threshold_correct out tgt)"
proof (cases "length out = 1")
  case True
  then obtain t ts where "tgt = t # ts" using assms by (cases tgt) auto
  then show ?thesis using True by (simp add: sample_correct_def threshold_correct_def Let_def)
next
  case False
  then show ?thesis by (simp add: sample_correct_def threshold_correct_def)
qed

text \<open>
  Claim C6, as amended. For non-empty output and target lists of equal length, in
  which every single-output sample has a target entry, \<^verbatim>\<open>computeAccuracy\<close> returns the
  number of correct samples divided by the number of samples, where a single-output
  sample is correct exactly when \<open>|p - target| < 0.5\<close> for the thresholded prediction
  \<open>p\<close> (1 if the output exceeds \<open>0.5\<close>, else 0), and any other sample exactly when
  the first largest output and the first largest target entry have the same index
  (\<open>max_element_first_largest\<close>).
\<close>

theorem computeAccuracy_rule:
  assumes "outputs \<noteq> []" "length outputs = length targets"
    and "\<forall>(out, tgt) \<in> set (zip outputs targets). length out = 1 \<longrightarrow> tgt \<noteq> []"
  shows "computeAccuracy outputs targets
         = Inr (real (length (filter (\<lambda>(out, tgt). threshold_correct out tgt) (zip outputs targets)))
                / real (length outputs))"
proof -
  have "\<forall>p \<in> set (zip outputs targets).
          (\<lambda>(out, tgt). sample_correct out tgt) p = Inr ((\<lambda>(out, tgt). threshold_correct out tgt) p)"
    using assms(3) by (auto simp: sample_correct_threshold)
  then have m: "mapF (\<lambda>(out, tgt). sample_correct out tgt) (zip outputs targets)
             = Inr (map (\<lambda>(out, tgt). threshold_correct out tgt) (zip outputs targets))"
    by (rule mapF_Inr_map)
  have "length (filter (\<lambda>c. c) (map (\<lambda>(out, tgt). threshold_correct out tgt) (zip outputs targets)))
        = length (filter (\<lambda>(out, tgt). threshold_correct out tgt) (zip outputs targets))"
    by (simp add: filter_map comp_def)
  moreover have "targets \<noteq> []" using assms(1,2) by auto
  ultimately show ?thesis using assms(1,2) m by (simp add: computeAccuracy_def)
qed

theorem computeAccuracy_rule_witness:
  "computeAccuracy [[8 / 5], [1 / 2], [1 / 5, 7 / 10, 1 / 10], [3, 1]] [[1], [1], [0, 1, 0], [0, 1]]
   = Inr (1 / 2)"
proof -
  have "computeAccuracy [[8 / 5], [1 / 2], [1 / 5, 7 / 10, 1 / 10], [3, 1]] [[1], [1], [0, 1, 0], [0, 1]]
        = Inr (real (length (filter (\<lambda>(out, tgt). threshold_correct out tgt)
                 (zip [[8 / 5], [1 / 2], [1 / 5, 7 / 10, 1 / 10], [3, 1]]
                      [[1], [1], [0, 1, 0], [0, 1 :: scalar]])))
               / real (length [[8 / 5], [1 / 2], [1 / 5, 7 / 10, 1 / 10], [3, 1 :: scalar]]))"
    by (rule computeAccuracy_rule) simp_all
  also have "\<dots> = Inr (1 / 2)"
    by (simp add: threshold_correct_def max_element_def upt_rec numeral_2_eq_2 numeral_3_eq_3)
  finally show ?thesis .
qed

text \<open>
  The claim as stated uses \<open>round(output)\<close> where the code thresholds at \<open>0.5\<close>. An
  output of \<open>1.6\<close> with target 1 rounds to 2 and would be wrong, and the code counts it
  as correct; an output of exactly \<open>0.5\<close> with target 1 rounds to 1 and would be
  correct, and the code counts it as wrong.
\<close>

theorem computeAccuracy_round_counterexample:
  "sample_correct [8 / 5] [1] = Inr True \<and> \<not> spec_single_correct (8 / 5) 1
   \<and> sample_correct [1 / 2] [1] = Inr False \<and> spec_single_correct (1 / 2) 1
   \<and> computeAccuracy [[8 / 5], [1 / 2]] [[1], [1]] = Inr (1 / 2)"
  by (simp add: sample_correct_def spec_single_correct_def std_round_def computeAccuracy_def
        bindF_def)

section \<open>Persistence\<close>

lemma get_scalar_vector_floats: "get_scalar_vector (Array (map NumberFloat ws)) = Inr ws"
proof -
  have "mapF get_scalar (map NumberFloat ws) = Inr ws"
    by (induction ws) (simp_all add: get_scalar_def)
  then show ?thesis by (simp add: get_scalar_vector_def)
qed

lemma get_size_t_unat: "get_size_t (NumberUnsigned (unat w)) = Inr w"
  by (simp add: get_size_t_def)

lemma get_int_sint: "get_int (NumberInteger (sint w)) = Inr w"
  by (simp add: get_int_def)

lemma load_Object:
  "map_of kvs key = Some v \<Longrightarrow> getter v = Inr x \<Longrightarrow>
   load (Object kvs) key getter setter s = Inr (setter x s)"
  by (simp add: load_def contains_def at_key_def)

lemma Neuron_roundtrip: "Neuron_fromJson (Neuron_toJson n) n0 = Inr n"
  by (simp add: Neuron_fromJson_def Neuron_toJson_def load_Object get_size_t_unat
        get_scalar_def get_bool_def get_string_def get_scalar_vector_floats)

lemma Neurons_roundtrip:
  "mapF (\<lambda>neuronJson. Neuron_fromJson neuronJson n0) (map Neuron_toJson ns) = Inr ns"
  by (induction ns) (simp_all add: Neuron_roundtrip)

lemma Layer_roundtrip:
  "Layer_fromJson (Layer_toJson l) l0
   = Inr (l\<lparr>dropoutMask := resize (length (neurons l)) True (dropoutMask l0)\<rparr>)"
  by (simp add: Layer_fromJson_def Layer_toJson_def load_Object get_int_sint
        get_scalar_def get_bool_def get_string_def contains_def at_key_def is_array_def
        elements_def Neurons_roundtrip)

lemma resize_fresh: "resize k True [True] = replicate k True"
  by (cases k) (simp_all add: resize_def)

lemma Layers_roundtrip:
  "mapF (\<lambda>layerJson. Layer_fromJson layerJson (Layer_ctor (Suc 0) ActivationType_ReLU []))
     (map Layer_toJson ls)
   = Inr (map (\<lambda>l. l\<lparr>dropoutMask := replicate (length (neurons l)) True\<rparr>) ls)"
  by (induction ls) (simp_all add: Layer_roundtrip Layer_ctor_def resize_fresh)

text \<open>
  Claim C1. \<^verbatim>\<open>fromJson\<close> applied to the document that \<^verbatim>\<open>toJson\<close> made of a network
  succeeds on any receiving network and gives it the name, learning rate, loss tag and
  optimizer tag of the original and a copy of every layer with all its units (so the
  same number of layers, the same sizes, activation tags, dropout rates and trainable
  flags, and the same weight vector and bias for every unit). The dropout mask, which
  is not part of the document, comes back all true, and the training flags of the
  receiving network stay as they were. No number is converted on the way: the document
  holds the values themselves.
\<close>

theorem toJson_fromJson_roundtrip:
  "\<exists>net'. Network_fromJson (Network_toJson net) target = Inr net'
     \<and> net' = target\<lparr>nn_name := nn_name net, learningRate := learningRate net,
                       lossType := lossType net, optimizerType := optimizerType net,
                       layers := map (\<lambda>l. l\<lparr>dropoutMask := replicate (length (neurons l)) True\<rparr>)
                                   (layers net)\<rparr>
     \<and> length (layers net') = length (layers net)
     \<and> map getSize (layers net') = map getSize (layers net)
     \<and> map activationType (layers net') = map activationType (layers net)
     \<and> map dropoutRate (layers net') = map dropoutRate (layers net)
     \<and> map l_trainable (layers net') = map l_trainable (layers net)
     \<and> map neurons (layers net') = map neurons (layers net)
     \<and> parameters net' = parameters net
     \<and> learningRate net' = learningRate net
     \<and> lossType net' = lossType net
     \<and> optimizerType net' = optimizerType net"
proof -
  let ?ls = "map (\<lambda>l. l\<lparr>dropoutMask := replicate (length (neurons l)) True\<rparr>) (layers net)"
  have "Network_fromJson (Network_toJson net) target
        = Inr (target\<lparr>nn_name := nn_name net, learningRate := learningRate net,
                       lossType := lossType net, optimizerType := optimizerType net,
                       layers := ?ls\<rparr>)"
    by (simp add: Network_fromJson_def Network_toJson_def load_Object get_int_sint
          get_scalar_def get_string_def contains_def at_key_def is_array_def
          elements_def Layers_roundtrip)
  then show ?thesis by (simp add: parameters_def getSize_def comp_def)
qed

end
